theory Spec2Isabelle
  imports Main
begin

section \<open>JavaScript values and exceptions\<close>

text \<open>
  The gateway is JavaScript. The values the rate-limit rule table can yield are modelled
  by \<open>jsval\<close>: a rule object (the three fields of a rule), a table object (a service's
  rules, or the whole table), the primitives, and \<open>JHost\<close> for a built-in object of the
  runtime (a method of \<open>Object.prototype\<close>, say), named by a label. \<open>JNaN\<close> is the
  number \<open>NaN\<close>. \<open>JIso t\<close> is the
  string \<open>new Date(t).toISOString()\<close> of a valid time value \<open>t\<close> (milliseconds since the
  epoch); its text is not computed.
  Texts of messages are written without their diacritics.
\<close>

record rule =
  windowMs :: int
  maxRequests :: int
  message :: string

datatype jsval =
    JUndefined
  | JNull
  | JBool bool
  | JNum int
  | JNaN
  | JStr string
  | JRule rule
  | JTable "(string \<times> jsval) list"
  | JHost string
  | JIso int

datatype exn = TypeError | RangeError | StoreError

text \<open>ToBoolean.\<close>

fun truthy :: "jsval \<Rightarrow> bool" where
  "truthy JUndefined = False"
| "truthy JNull = False"
| "truthy (JBool b) = b"
| "truthy (JNum n) = (n \<noteq> 0)"
| "truthy JNaN = False"
| "truthy (JStr s) = (s \<noteq> [])"
| "truthy (JRule r) = True"
| "truthy (JTable ps) = True"
| "truthy (JHost h) = True"
| "truthy (JIso t) = True"

text \<open>Own properties of a value: the fields written in the source's object literals.\<close>

fun own :: "jsval \<Rightarrow> string \<Rightarrow> jsval option" where
  "own (JRule r) k =
     (if k = ''windowMs'' then Some (JNum (windowMs r))
      else if k = ''maxRequests'' then Some (JNum (maxRequests r))
      else if k = ''message'' then Some (JStr (message r))
      else None)"
| "own (JTable ps) k = map_of ps k"
| "own v k = None"

text \<open>
  A property read \<open>v[k]\<close> finds an own property first and goes to the prototype chain
  otherwise. What the chain holds belongs to the JavaScript runtime, not to this
  repository, so it is a parameter: \<open>inh v k\<close> is the result of reading \<open>k\<close> on \<open>v\<close>
  when \<open>v\<close> has no own property \<open>k\<close> (a value, \<open>JUndefined\<close> when there is none, or
  an exception when an accessor throws).
\<close>

type_synonym runtime = "jsval \<Rightarrow> string \<Rightarrow> exn + jsval"

definition getProp :: "runtime \<Rightarrow> jsval \<Rightarrow> string \<Rightarrow> exn + jsval" where
  "getProp inh v k = (case own v k of Some x \<Rightarrow> Inr x | None \<Rightarrow> inh v k)"

section \<open>Rate-limit rules (config/rateLimitRules.js)\<close>

definition rateLimitRules :: jsval where
  "rateLimitRules = JTable
    [(''default'', JRule \<lparr>windowMs = 15 * 60 * 1000, maxRequests = 100,
        message = ''Qua nhieu requests. Vui long thu lai sau.''\<rparr>),
     (''auth'', JTable
       [(''login'', JRule \<lparr>windowMs = 15 * 60 * 1000, maxRequests = 5,
           message = ''Qua nhieu lan dang nhap that bai. Vui long thu lai sau 15 phut.''\<rparr>),
        (''register'', JRule \<lparr>windowMs = 60 * 60 * 1000, maxRequests = 3,
           message = ''Qua nhieu lan dang ky. Vui long thu lai sau 1 gio.''\<rparr>),
        (''refresh'', JRule \<lparr>windowMs = 5 * 60 * 1000, maxRequests = 10,
           message = ''Qua nhieu lan refresh token. Vui long thu lai sau.''\<rparr>),
        (''default'', JRule \<lparr>windowMs = 15 * 60 * 1000, maxRequests = 20,
           message = ''Qua nhieu requests den auth service. Vui long thu lai sau.''\<rparr>)]),
     (''posts'', JTable
       [(''create'', JRule \<lparr>windowMs = 60 * 60 * 1000, maxRequests = 10,
           message = ''Ban da tao qua nhieu bai viet. Vui long thu lai sau 1 gio.''\<rparr>),
        (''list'', JRule \<lparr>windowMs = 1 * 60 * 1000, maxRequests = 30,
           message = ''Qua nhieu requests. Vui long thu lai sau.''\<rparr>),
        (''default'', JRule \<lparr>windowMs = 15 * 60 * 1000, maxRequests = 50,
           message = ''Qua nhieu requests den post service. Vui long thu lai sau.''\<rparr>)]),
     (''comments'', JTable
       [(''create'', JRule \<lparr>windowMs = 15 * 60 * 1000, maxRequests = 30,
           message = ''Ban da comment qua nhieu. Vui long thu lai sau.''\<rparr>),
        (''default'', JRule \<lparr>windowMs = 15 * 60 * 1000, maxRequests = 60,
           message = ''Qua nhieu requests den comment service. Vui long thu lai sau.''\<rparr>)]),
     (''media'', JTable
       [(''upload'', JRule \<lparr>windowMs = 60 * 60 * 1000, maxRequests = 20,
           message = ''Ban da upload qua nhieu file. Vui long thu lai sau 1 gio.''\<rparr>),
        (''default'', JRule \<lparr>windowMs = 15 * 60 * 1000, maxRequests = 100,
           message = ''Qua nhieu requests den media service. Vui long thu lai sau.''\<rparr>)])]"

text \<open>\<open>path.split("/")\<close>: the pieces between the slashes, empty ones included.\<close>

fun splitAcc :: "char \<Rightarrow> string \<Rightarrow> string \<Rightarrow> string list" where
  "splitAcc c cur [] = [cur]"
| "splitAcc c cur (x # xs) =
     (if x = c then cur # splitAcc c [] xs else splitAcc c (cur @ [x]) xs)"

definition split :: "string \<Rightarrow> char \<Rightarrow> string list" where
  "split s c = splitAcc c [] s"

text \<open>\<open>path.split("/").filter(Boolean)\<close>: the pieces that are not empty.\<close>

definition pathParts :: "string \<Rightarrow> string list" where
  "pathParts path = filter (\<lambda>s. s \<noteq> []) (split path CHR ''/'')"

text \<open>\<open>getRateLimitRule(path)\<close>. \<open>parts[2]\<close> is \<open>undefined\<close> when there are only two pieces.\<close>

definition getRateLimitRule :: "runtime \<Rightarrow> string \<Rightarrow> exn + jsval" where
  "getRateLimitRule inh path =
     (let parts = pathParts path in
      if length parts < 2 then getProp inh rateLimitRules ''default''
      else
        let service = parts ! 1;
            action = (if 2 < length parts then Some (parts ! 2) else None)
        in case getProp inh rateLimitRules service of
             Inl e \<Rightarrow> Inl e
           | Inr serviceRules \<Rightarrow>
               if \<not> truthy serviceRules then getProp inh rateLimitRules ''default''
               else
                 (case (case action of
                          None \<Rightarrow> Inr JUndefined
                        | Some a \<Rightarrow> getProp inh serviceRules a) of
                    Inl e \<Rightarrow> Inl e
                  | Inr specific \<Rightarrow>
                      if truthy specific then Inr specific
                      else
                        (case getProp inh serviceRules ''default'' of
                           Inl e \<Rightarrow> Inl e
                         | Inr d \<Rightarrow>
                             if truthy d then Inr d
                             else getProp inh rateLimitRules ''default'')))"

section \<open>The remote store: Redis sorted sets\<close>

text \<open>
  The limiter keeps one sorted set per key in Redis. A set is a list of members with
  their scores, each member once; \<open>ttl\<close> is the number of seconds last given to
  \<open>EXPIRE\<close> (the passage of time between calls, and with it the deletion of a key whose
  time to live has run out, is outside the model). Redis has no empty sorted set:
  removing the last member deletes the key.
\<close>

record entry =
  zmembers :: "(string \<times> int) list"
  ttl :: "int option"

type_synonym store = "string \<Rightarrow> entry option"

definition putMembers :: "store \<Rightarrow> string \<Rightarrow> entry \<Rightarrow> (string \<times> int) list \<Rightarrow> store" where
  "putMembers st key e zs =
     (if zs = [] then st(key := None) else st(key \<mapsto> e\<lparr>zmembers := zs\<rparr>))"

definition zremrangebyscore :: "store \<Rightarrow> string \<Rightarrow> int \<Rightarrow> int \<Rightarrow> store" where
  "zremrangebyscore st key lo hi =
     (case st key of
        None \<Rightarrow> st
      | Some e \<Rightarrow> putMembers st key e (filter (\<lambda>(m, s). \<not> (lo \<le> s \<and> s \<le> hi)) (zmembers e)))"

definition zcard :: "store \<Rightarrow> string \<Rightarrow> int" where
  "zcard st key = (case st key of None \<Rightarrow> 0 | Some e \<Rightarrow> int (length (zmembers e)))"

text \<open>\<open>ZADD\<close> creates the key, adds the member, or gives a member already there its new score.\<close>

definition zadd :: "store \<Rightarrow> string \<Rightarrow> int \<Rightarrow> string \<Rightarrow> store" where
  "zadd st key score member =
     (case st key of
        None \<Rightarrow> st(key \<mapsto> \<lparr>zmembers = [(member, score)], ttl = None\<rparr>)
      | Some e \<Rightarrow>
          st(key \<mapsto> e\<lparr>zmembers := filter (\<lambda>(m, s). m \<noteq> member) (zmembers e) @ [(member, score)]\<rparr>))"

text \<open>\<open>EXPIRE\<close> with a time that is not positive deletes the key.\<close>

definition expire :: "store \<Rightarrow> string \<Rightarrow> int \<Rightarrow> store" where
  "expire st key seconds =
     (case st key of
        None \<Rightarrow> st
      | Some e \<Rightarrow> if seconds \<le> 0 then st(key := None) else st(key \<mapsto> e\<lparr>ttl := Some seconds\<rparr>))"

fun lowestFrom :: "string \<times> int \<Rightarrow> (string \<times> int) list \<Rightarrow> string \<times> int" where
  "lowestFrom b [] = b"
| "lowestFrom b (x # xs) = lowestFrom (if snd x < snd b then x else b) xs"

text \<open>
  \<open>zrange(key, 0, 0, "WITHSCORES")\<close>: the member of least score with its score, nothing
  when the key does not exist. (Among members of equal score Redis returns the least
  member; the limiter reads the score only.)
\<close>

definition zrangeFirst :: "store \<Rightarrow> string \<Rightarrow> (string \<times> int) option" where
  "zrangeFirst st key =
     (case st key of
        None \<Rightarrow> None
      | Some e \<Rightarrow> (case zmembers e of [] \<Rightarrow> None | x # xs \<Rightarrow> Some (lowestFrom x xs)))"

definition zrem :: "store \<Rightarrow> string \<Rightarrow> string \<Rightarrow> store" where
  "zrem st key member =
     (case st key of
        None \<Rightarrow> st
      | Some e \<Rightarrow> putMembers st key e (filter (\<lambda>(m, s). m \<noteq> member) (zmembers e)))"

definition del :: "store \<Rightarrow> string list \<Rightarrow> store" where
  "del st keys = (\<lambda>k. if k \<in> set keys then None else st k)"

text \<open>
  A call to the store can fail (the store is unreachable, the connection is closed) and
  the store is then left as it was. \<open>up c\<close> says that call \<open>c\<close> goes through. A command
  awaited on its own (\<open>zrange\<close>, \<open>zrem\<close>, \<open>zremrangebyscore\<close>, \<open>zcard\<close>, \<open>keys\<close>,
  \<open>del\<close>) throws when it fails. The pipeline does not: \<open>pipeline.exec()\<close> of the ioredis
  client resolves with one entry for each command, \<open>[err]\<close> for a command that failed,
  so that \<open>results[1][1]\<close> is \<open>undefined\<close>.
\<close>

datatype call = Pipeline | Zrange | Zrem | Zremrangebyscore | Zcard | Keys | Del

type_synonym link = "call \<Rightarrow> bool"

section \<open>The rate limiter (middleware/rateLimiter.js)\<close>

text \<open>Decimal text of a number, as a template literal renders it.\<close>

fun digits :: "nat \<Rightarrow> string" where
  "digits n = (if n < 10 then [''0123456789'' ! n]
               else digits (n div 10) @ [''0123456789'' ! (n mod 10)])"

declare digits.simps [simp del]

definition showInt :: "int \<Rightarrow> string" where
  "showInt i = (if i < 0 then CHR ''-'' # digits (nat (- i)) else digits (nat i))"

text \<open>
  \<open>Math.ceil(x / 1000)\<close> for an integer \<open>x\<close> (the quotient of two times in milliseconds
  is far from the size where the rounding of a double could reach the next integer).
\<close>

definition ceilDiv1000 :: "int \<Rightarrow> int" where
  "ceilDiv1000 x = - ((- x) div 1000)"

definition rateKey :: "string \<Rightarrow> string \<Rightarrow> string" where
  "rateKey ip path = ''rate_limit:'' @ ip @ '':'' @ path"

text \<open>
  The member written for a request: the time, a dash and a draw of \<open>Math.random()\<close>.
  A draw is given by its text (\<open>''0.4173''\<close>).
\<close>

definition memberName :: "int \<Rightarrow> string \<Rightarrow> string" where
  "memberName now draw = showInt now @ ''-'' @ draw"

type_synonym fields = "(string \<times> jsval) list"

text \<open>
  What the middleware does with the request: \<open>Passed hs\<close> calls \<open>next()\<close> with the
  headers \<open>hs\<close> set on the response, \<open>Sent status hs body\<close> answers with a status, the
  headers and a JSON body.
\<close>

datatype outcome = Passed fields | Sent nat fields fields

text \<open>
  The body of the \<open>try\<close> block of the middleware returned by \<open>createRateLimiter()\<close>,
  for a request of identity \<open>ip\<close> to \<open>path\<close> at time \<open>now\<close> (\<open>Date.now()\<close>).
  \<open>draw1\<close> is the value of \<open>Math.random()\<close> in the member given to \<open>zadd\<close>, \<open>draw2\<close>
  the value of the second call of \<open>Math.random()\<close>, in the member given to \<open>zrem\<close>.
  The result is the store afterwards and either the exception thrown or what the
  middleware did. \<open>now\<close> and \<open>now + windowMs\<close> are valid time values, as the results of
  \<open>Date.now()\<close> are, so \<open>toISOString\<close> does not throw on a path that has a rule.

  The four commands of the pipeline run one after the other. When the pipeline fails,
  \<open>currentRequests\<close> is \<open>undefined\<close>: the comparison with \<open>maxRequests\<close> is false,
  \<open>remaining\<close> is \<open>NaN\<close>, and the request is passed on with the three headers set. A
  value returned by
  \<open>getRateLimitRule\<close> that is not a rule object has none of the three fields (no
  prototype of the runtime defines \<open>windowMs\<close>, \<open>maxRequests\<close> or \<open>message\<close>), so the
  destructuring yields \<open>undefined\<close> three times: \<open>windowStart\<close> is \<open>NaN\<close>, Redis
  refuses \<open>ZREMRANGEBYSCORE\<close> and \<open>EXPIRE\<close> with an error reply inside the pipeline's
  result while \<open>ZCARD\<close> and \<open>ZADD\<close> run, the comparison with \<open>undefined\<close> is false,
  and \<open>new Date(NaN).toISOString()\<close> throws a \<open>RangeError\<close> before any header is set.
\<close>

definition rateLimitTry ::
  "runtime \<Rightarrow> link \<Rightarrow> store \<Rightarrow> string \<Rightarrow> string \<Rightarrow> int \<Rightarrow> string \<Rightarrow> string
     \<Rightarrow> store \<times> (exn + outcome)" where
  "rateLimitTry inh up st ip path now draw1 draw2 =
     (case getRateLimitRule inh path of
        Inl e \<Rightarrow> (st, Inl e)
      | Inr v \<Rightarrow>
          (let key = rateKey ip path in
           case v of
             JRule r \<Rightarrow>
               (let windowStart = now - windowMs r in
                if \<not> up Pipeline then
                  (st, Inr (Passed
                     [(''X-RateLimit-Limit'', JNum (maxRequests r)),
                      (''X-RateLimit-Remaining'', JNaN),
                      (''X-RateLimit-Reset'', JIso (now + windowMs r))]))
                else
                  let st1 = zremrangebyscore st key 0 windowStart;
                      currentRequests = zcard st1 key;
                      st2 = zadd st1 key now (memberName now draw1);
                      st3 = expire st2 key (ceilDiv1000 (windowMs r))
                  in
                    if currentRequests \<ge> maxRequests r then
                      (if \<not> up Zrange then (st3, Inl StoreError)
                       else
                         let retryAfter =
                               (case zrangeFirst st3 key of
                                  None \<Rightarrow> ceilDiv1000 (windowMs r)
                                | Some (m, oldestTimestamp) \<Rightarrow>
                                    ceilDiv1000 (oldestTimestamp + windowMs r - now))
                         in
                           if \<not> up Zrem then (st3, Inl StoreError)
                           else
                             (zrem st3 key (memberName now draw2),
                              Inr (Sent 429
                                [(''X-RateLimit-Limit'', JNum (maxRequests r)),
                                 (''X-RateLimit-Remaining'', JNum 0),
                                 (''X-RateLimit-Reset'', JIso (now + windowMs r)),
                                 (''Retry-After'', JNum retryAfter)]
                                [(''success'', JBool False),
                                 (''error'', JStr ''RATE_LIMIT_EXCEEDED''),
                                 (''message'', JStr (message r)),
                                 (''retryAfter'', JNum retryAfter)])))
                    else
                      (let remaining = maxRequests r - currentRequests - 1 in
                       (st3, Inr (Passed
                          [(''X-RateLimit-Limit'', JNum (maxRequests r)),
                           (''X-RateLimit-Remaining'', JNum (max 0 remaining)),
                           (''X-RateLimit-Reset'', JIso (now + windowMs r))]))))
           | _ \<Rightarrow>
               if \<not> up Pipeline then (st, Inl RangeError)
               else (zadd st key now (memberName now draw1), Inl RangeError)))"

text \<open>The \<open>catch\<close> block: log, and call \<open>next()\<close>.\<close>

definition createRateLimiter ::
  "runtime \<Rightarrow> link \<Rightarrow> store \<Rightarrow> string \<Rightarrow> string \<Rightarrow> int \<Rightarrow> string \<Rightarrow> string
     \<Rightarrow> store \<times> outcome" where
  "createRateLimiter inh up st ip path now draw1 draw2 =
     (case rateLimitTry inh up st ip path now draw1 draw2 of
        (st', Inl e) \<Rightarrow> (st', Passed [])
      | (st', Inr out) \<Rightarrow> (st', out))"

text \<open>
  \<open>resetRateLimit(ip, path)\<close>. \<open>keysOf st pattern\<close> is the answer of Redis to
  \<open>KEYS pattern\<close>, with its own matching of patterns.
\<close>

definition resetRateLimit ::
  "(store \<Rightarrow> string \<Rightarrow> string list) \<Rightarrow> link \<Rightarrow> store \<Rightarrow> string \<Rightarrow> string \<Rightarrow> store \<times> bool" where
  "resetRateLimit keysOf up st ip path =
     (if path = ''*'' then
        (if \<not> up Keys then (st, False)
         else
           let keys = keysOf st (''rate_limit:'' @ ip @ '':*'') in
           if length keys > 0 then
             (if \<not> up Del then (st, False) else (del st keys, True))
           else (st, True))
      else
        (let key = rateKey ip path in
         if \<not> up Del then (st, False) else (del st [key], True)))"

text \<open>
  \<open>getRateLimitStatus(ip, path)\<close>; \<open>None\<close> is the \<open>null\<close> of the \<open>catch\<close> block. With a
  value that is not a rule object \<open>windowStart\<close> is \<open>NaN\<close> and \<open>zremrangebyscore\<close>
  throws.
\<close>

definition getRateLimitStatus ::
  "runtime \<Rightarrow> link \<Rightarrow> store \<Rightarrow> string \<Rightarrow> string \<Rightarrow> int \<Rightarrow> store \<times> fields option" where
  "getRateLimitStatus inh up st ip path now =
     (case getRateLimitRule inh path of
        Inl e \<Rightarrow> (st, None)
      | Inr v \<Rightarrow>
          (case v of
             JRule r \<Rightarrow>
               (let key = rateKey ip path;
                    windowStart = now - windowMs r
                in
                  if \<not> up Zremrangebyscore then (st, None)
                  else
                    let st1 = zremrangebyscore st key 0 windowStart in
                    if \<not> up Zcard then (st1, None)
                    else
                      let currentRequests = zcard st1 key in
                      (st1, Some
                         [(''ip'', JStr ip),
                          (''path'', JStr path),
                          (''limit'', JNum (maxRequests r)),
                          (''current'', JNum currentRequests),
                          (''remaining'', JNum (max 0 (maxRequests r - currentRequests))),
                          (''resetAt'', JIso (now + windowMs r))]))
           | _ \<Rightarrow> (st, None)))"

text \<open>Requests served one after the other, each on the store the one before left.\<close>

record req =
  r_ip :: string
  r_path :: string
  r_now :: int
  r_draw1 :: string
  r_draw2 :: string

fun serve :: "runtime \<Rightarrow> link \<Rightarrow> store \<Rightarrow> req list \<Rightarrow> store \<times> outcome list" where
  "serve inh up st [] = (st, [])"
| "serve inh up st (q # qs) =
     (case createRateLimiter inh up st (r_ip q) (r_path q) (r_now q) (r_draw1 q) (r_draw2 q) of
        (st', out) \<Rightarrow> (case serve inh up st' qs of (st'', outs) \<Rightarrow> (st'', out # outs)))"

section \<open>The circuit-breaker proxy (middleware/circuitBreakerProxy.js)\<close>

text \<open>
  \<open>String.prototype.toLowerCase\<close> on the characters of a header (one byte each, Latin-1):
  the letters A to Z and the accented capitals move by 32. Texts of request bodies are
  taken in the same alphabet.
\<close>

definition toLowerChar :: "char \<Rightarrow> char" where
  "toLowerChar c =
     (let n = (of_char c :: nat) in
      if (65 \<le> n \<and> n \<le> 90) \<or> (192 \<le> n \<and> n \<le> 222 \<and> n \<noteq> 215)
      then char_of (n + 32) else c)"

definition toLowerCase :: "string \<Rightarrow> string" where
  "toLowerCase s = map toLowerChar s"

text \<open>\<open>req.headers.upgrade?.toLowerCase() === 'websocket'\<close>.\<close>

definition isWebSocket :: "string option \<Rightarrow> bool" where
  "isWebSocket upgrade =
     (case upgrade of None \<Rightarrow> False | Some u \<Rightarrow> toLowerCase u = ''websocket'')"

text \<open>
  \<open>createFallbackResponse(serviceName)\<close> (config/circuitBreaker.js), built at time
  \<open>now\<close>.
\<close>

definition createFallbackResponse :: "string \<Rightarrow> int \<Rightarrow> fields" where
  "createFallbackResponse serviceName now =
     [(''success'', JBool False),
      (''error'', JStr ''SERVICE_UNAVAILABLE''),
      (''message'', JStr (serviceName @ '' is temporarily unavailable. Please try again later.'')),
      (''service'', JStr serviceName),
      (''timestamp'', JIso now)]"

text \<open>The two flags of a breaker (of the opossum library) that the proxy reads.\<close>

record breaker =
  opened :: bool
  halfOpen :: bool

text \<open>
  What a handler does with a request: it answers with a status and a JSON body, it
  returns without writing anything, it hands the request to the HTTP proxy of a
  service (the only place where a connection to the upstream is made; the flag says
  whether \<open>res.end\<close> was wrapped to sample the outcome), it hands it to the WebSocket
  proxy of a service, or it passes an error to the error handler of the gateway, which
  answers with the status of the error, 500 when it has none, and the error's message.
\<close>

datatype handled =
    Responded nat fields
  | Unanswered
  | Proxied string bool
  | ProxiedWs string
  | Failed nat

text \<open>
  The middleware returned by \<open>createCircuitBreakerProxy(serviceName, ...)\<close>, for a
  request with the given \<open>Upgrade\<close> header, on a response whose headers are sent or not.
\<close>

definition createCircuitBreakerProxy ::
  "string \<Rightarrow> breaker \<Rightarrow> string option \<Rightarrow> bool \<Rightarrow> int \<Rightarrow> handled" where
  "createCircuitBreakerProxy serviceName b upgrade headersSent now =
     (if isWebSocket upgrade then Proxied serviceName False
      else if opened b then
        (if \<not> headersSent then Responded 503 (createFallbackResponse serviceName now)
         else Unanswered)
      else Proxied serviceName True)"

section \<open>Routing of the shared GraphQL path (the gateway's main module)\<close>

text \<open>\<open>s.startsWith(p)\<close> and \<open>s.includes(p)\<close> (named \<open>includesStr\<close> here).\<close>

fun startsWith :: "string \<Rightarrow> string \<Rightarrow> bool" where
  "startsWith s [] = True"
| "startsWith [] (p # ps) = False"
| "startsWith (c # cs) (p # ps) = (c = p \<and> startsWith cs ps)"

fun includesStr :: "string \<Rightarrow> string \<Rightarrow> bool" where
  "includesStr [] p = (p = [])"
| "includesStr (c # cs) p = (startsWith (c # cs) p \<or> includesStr cs p)"

text \<open>\<open>s.replace(p, "")\<close> for a text \<open>p\<close>: the first occurrence is cut out.\<close>

fun cutFirst :: "string \<Rightarrow> string \<Rightarrow> string" where
  "cutFirst [] p = []"
| "cutFirst (c # cs) p =
     (if startsWith (c # cs) p then drop (length p) (c # cs) else c # cutFirst cs p)"

text \<open>
  A field of the JSON body as the routing handler reads it with \<open>req.body?.f || ""\<close>:
  \<open>Missing\<close> when there is no body, no such field, or a value that is falsy (\<open>null\<close>,
  \<open>false\<close>, 0, the empty text), so that the empty text is taken; \<open>Text\<close> for a text;
  \<open>Items\<close> for an array, with its elements; \<open>Other\<close> for any other value (a number,
  \<open>true\<close>, an object), which has neither \<open>includes\<close> nor \<open>toLowerCase\<close>.
\<close>

datatype field = Missing | Text string | Items "field list" | Other

text \<open>
  A request as the handlers of the path read it: its URL, the \<open>Upgrade\<close> header, the
  cookie \<open>access_token\<close>, the \<open>Authorization\<close> header, and the body as
  \<open>bodyParser.json()\<close> leaves it: \<open>Refused status\<close> when the parser passes an error
  on, with the status of the error (400 when the JSON does not parse, 413 when the body
  is too large, 415 when its encoding is not supported), else the fields \<open>query\<close> and
  \<open>operationName\<close> of \<open>req.body\<close>.
\<close>

datatype parsed = Refused nat | Body field field

record request =
  url :: string
  upgrade :: "string option"
  access_token :: "string option"
  authorization :: "string option"
  body :: parsed

text \<open>\<open>a || b\<close> on texts that may be absent: the first that is present and not empty.\<close>

definition orElse :: "string option \<Rightarrow> string option \<Rightarrow> string option" where
  "orElse a b = (case a of Some x \<Rightarrow> (if x \<noteq> [] then Some x else b) | None \<Rightarrow> b)"

text \<open>
  \<open>authenticateToken\<close> (middleware/auth.js). \<open>verify\<close> is \<open>verifyToken\<close>: the check of the
  JSON web token by the library, \<open>None\<close> for \<open>null\<close>.
\<close>

definition authenticateToken :: "(string \<Rightarrow> 'u option) \<Rightarrow> request \<Rightarrow> handled + 'u" where
  "authenticateToken verify rq =
     (case orElse (access_token rq)
             (map_option (\<lambda>a. cutFirst a ''Bearer '') (authorization rq)) of
        None \<Rightarrow>
          Inl (Responded 401
                 [(''success'', JBool False), (''message'', JStr ''Authentication required'')])
      | Some token \<Rightarrow>
          (if token = [] then
             Inl (Responded 401
                    [(''success'', JBool False), (''message'', JStr ''Authentication required'')])
           else
             (case verify token of
                None \<Rightarrow>
                  Inl (Responded 403
                         [(''success'', JBool False),
                          (''message'', JStr ''Invalid or expired token'')])
              | Some user \<Rightarrow> Inr user)))"

text \<open>
  \<open>v.includes(p)\<close> for \<open>v = req.body?.query || ""\<close>: the search of a text in a text, the
  search of an element in an array, a \<open>TypeError\<close> on a value without \<open>includes\<close>.
\<close>

fun fieldIncludes :: "field \<Rightarrow> string \<Rightarrow> exn + bool" where
  "fieldIncludes Missing p = Inr (includesStr [] p)"
| "fieldIncludes (Text s) p = Inr (includesStr s p)"
| "fieldIncludes (Items xs) p = Inr (Text p \<in> set xs)"
| "fieldIncludes Other p = Inl TypeError"

text \<open>
  \<open>v.toLowerCase().includes(p)\<close> for \<open>v = req.body?.operationName || ""\<close>: only a text
  has \<open>toLowerCase\<close>.
\<close>

fun lowerIncludes :: "field \<Rightarrow> string \<Rightarrow> exn + bool" where
  "lowerIncludes Missing p = Inr (includesStr (toLowerCase []) p)"
| "lowerIncludes (Text s) p = Inr (includesStr (toLowerCase s) p)"
| "lowerIncludes (Items xs) p = Inl TypeError"
| "lowerIncludes Other p = Inl TypeError"

text \<open>\<open>a || b\<close>: \<open>b\<close> is evaluated only when \<open>a\<close> is false, and an exception ends it.\<close>

definition orThen :: "exn + bool \<Rightarrow> exn + bool \<Rightarrow> exn + bool" where
  "orThen a b = (case a of Inl e \<Rightarrow> Inl e | Inr x \<Rightarrow> if x then Inr True else b)"

text \<open>The test of the routing handler on \<open>query\<close> and \<open>operationName\<close>.\<close>

definition routesToComment :: "field \<Rightarrow> field \<Rightarrow> exn + bool" where
  "routesToComment query operationName =
     orThen (fieldIncludes query ''subscription'')
    (orThen (fieldIncludes query ''commentAdded'')
    (orThen (fieldIncludes query ''commentDeleted'')
    (orThen (fieldIncludes query ''commentUpdated'')
    (orThen (fieldIncludes query ''getComments'')
    (orThen (fieldIncludes query ''createComment'')
    (orThen (fieldIncludes query ''deleteComment'')
            (lowerIncludes operationName ''comment'')))))))"

text \<open>
  \<open>app.use("/graphql", authenticateToken, ..., ...)\<close>: the chain of the three handlers.
  \<open>breakers\<close> gives the breaker of each service. An exception thrown by the routing
  handler is caught by Express and passed to the error handler, which answers with
  \<open>err.status || 500\<close>; a \<open>TypeError\<close> has no status.
\<close>

definition graphqlRoute ::
  "(string \<Rightarrow> 'u option) \<Rightarrow> (string \<Rightarrow> breaker) \<Rightarrow> request \<Rightarrow> bool \<Rightarrow> int \<Rightarrow> handled" where
  "graphqlRoute verify breakers rq headersSent now =
     (case authenticateToken verify rq of
        Inl answer \<Rightarrow> answer
      | Inr user \<Rightarrow>
          if isWebSocket (upgrade rq) then ProxiedWs ''comment''
          else
            (case body rq of
               Refused status \<Rightarrow> Failed (if status = 0 then 500 else status)
             | Body query operationName \<Rightarrow>
                 (case routesToComment query operationName of
                    Inl e \<Rightarrow> Failed 500
                  | Inr comment \<Rightarrow>
                      if comment then
                        createCircuitBreakerProxy ''comment'' (breakers ''comment'')
                          (upgrade rq) headersSent now
                      else
                        createCircuitBreakerProxy ''post'' (breakers ''post'')
                          (upgrade rq) headersSent now)))"

text \<open>
  \<open>httpServer.on('upgrade', ...)\<close>: the upstream whose WebSocket proxy takes the
  handshake, if any.
\<close>

definition onUpgrade :: "request \<Rightarrow> string option" where
  "onUpgrade rq =
     (if startsWith (url rq) ''/notifications/socket.io'' then Some ''notification''
      else if startsWith (url rq) ''/graphql'' \<and> isWebSocket (upgrade rq) then Some ''comment''
      else None)"

text \<open>
  The operations of the two GraphQL services: those of the comment service are the
  fields of \<open>Query\<close>, \<open>Mutation\<close> and \<open>Subscription\<close> in its schema
  (comment-service/src/graphql/schema.js); those of the post service are the ones the
  repository's README documents, its schema not being among the sources.
\<close>

definition commentOperations :: "string list" where
  "commentOperations =
     [''getComments'', ''createComment'', ''deleteComment'',
      ''commentAdded'', ''commentUpdated'', ''commentDeleted'']"

definition postOperations :: "string list" where
  "postOperations = [''createPost'', ''deletePost'', ''getPosts'', ''getPost'']"

text \<open>The seven texts the routing handler looks for in \<open>query\<close>.\<close>

definition commentKeywords :: "string list" where
  "commentKeywords =
     [''subscription'', ''commentAdded'', ''commentDeleted'', ''commentUpdated'',
      ''getComments'', ''createComment'', ''deleteComment'']"

definition mentions :: "string list \<Rightarrow> string \<Rightarrow> bool" where
  "mentions ops query = list_ex (includesStr query) ops"

section \<open>Views of the state and of the outcome\<close>

text \<open>The members stored under a key, none when the key does not exist.\<close>

definition window :: "store \<Rightarrow> string \<Rightarrow> (string \<times> int) list" where
  "window st key = (case st key of None \<Rightarrow> [] | Some e \<Rightarrow> zmembers e)"

text \<open>The members of a window that the limiter's \<open>zremrangebyscore\<close> leaves at time \<open>now\<close>.\<close>

definition live :: "rule \<Rightarrow> int \<Rightarrow> (string \<times> int) list \<Rightarrow> (string \<times> int) list" where
  "live r now w = filter (\<lambda>(m, s). \<not> (0 \<le> s \<and> s \<le> now - windowMs r)) w"

text \<open>A window after \<open>zadd\<close> of a member.\<close>

definition inserted :: "string \<Rightarrow> int \<Rightarrow> (string \<times> int) list \<Rightarrow> (string \<times> int) list" where
  "inserted member now w = filter (\<lambda>(m, s). m \<noteq> member) w @ [(member, now)]"

text \<open>The limiter's \<open>retryAfter\<close>, from the window that \<open>zrange\<close> reads.\<close>

definition retryAfterOf :: "rule \<Rightarrow> int \<Rightarrow> (string \<times> int) list \<Rightarrow> int" where
  "retryAfterOf r now w =
     (case w of
        [] \<Rightarrow> ceilDiv1000 (windowMs r)
      | x # xs \<Rightarrow> ceilDiv1000 (snd (lowestFrom x xs) + windowMs r - now))"

text \<open>
  Scores are times of requests, \<open>Date.now()\<close> read by a gateway: no score of the store is
  negative.
\<close>

definition scoresNonneg :: "store \<Rightarrow> bool" where
  "scoresNonneg st = (\<forall>key. \<forall>(m, s)\<in>set (window st key). 0 \<le> s)"

fun headersOf :: "outcome \<Rightarrow> fields" where
  "headersOf (Passed hs) = hs"
| "headersOf (Sent status hs bd) = hs"

text \<open>
  A runtime whose built-in objects are not rate-limit rules: no read of a prototype
  yields a rule object or a table of rules.
\<close>

definition builtinRuntime :: "runtime \<Rightarrow> bool" where
  "builtinRuntime inh =
     (\<forall>v k x. inh v k = Inr x \<longrightarrow> (\<forall>r. x \<noteq> JRule r) \<and> (\<forall>ps. x \<noteq> JTable ps))"

section \<open>Concrete inputs\<close>

text \<open>
  A runtime whose prototypes hold nothing, a store that answers every call, one that
  answers none and one that answers every call but \<open>zrange\<close>, the store without keys, a
  store that holds five requests of one identity to the login path (made at the times
  1000000 to 1000004), and one that holds two (made at the times 1000000 and 1500000;
  the time to live of the key, set by the second, runs until 2400000).
\<close>

definition noInherited :: runtime where
  "noInherited v k = Inr JUndefined"

definition allUp :: link where
  "allUp c = True"

definition storeDown :: link where
  "storeDown c = False"

definition zrangeDown :: link where
  "zrangeDown c = (c \<noteq> Zrange)"

definition emptyStore :: store where
  "emptyStore k = None"

definition busyStore :: store where
  "busyStore = emptyStore(rateKey ''203.0.113.7'' ''/api/auth/login'' \<mapsto>
     \<lparr>zmembers = [(''1000000-0.11'', 1000000), (''1000001-0.12'', 1000001),
                  (''1000002-0.13'', 1000002), (''1000003-0.14'', 1000003),
                  (''1000004-0.15'', 1000004)],
      ttl = Some 900\<rparr>)"

definition agedStore :: store where
  "agedStore = emptyStore(rateKey ''203.0.113.7'' ''/api/auth/login'' \<mapsto>
     \<lparr>zmembers = [(''1000000-0.11'', 1000000), (''1500000-0.12'', 1500000)],
      ttl = Some 900\<rparr>)"

text \<open>
  A check of tokens that accepts every token, breakers that are all closed and breakers
  that are all open, and GraphQL requests that carry a valid token: a query of the
  post service sent under an operation name that mentions its comment count, a query
  of the comment service, a mutation of the post service, a WebSocket upgrade, a body
  that does not parse, and a body whose \<open>query\<close> is a number.
\<close>

definition acceptToken :: "string \<Rightarrow> unit option" where
  "acceptToken token = Some ()"

definition closedBreakers :: "string \<Rightarrow> breaker" where
  "closedBreakers service = \<lparr>opened = False, halfOpen = False\<rparr>"

definition openBreakers :: "string \<Rightarrow> breaker" where
  "openBreakers service = \<lparr>opened = True, halfOpen = False\<rparr>"

definition postQuery :: string where
  "postQuery =
     ''query PostsWithCommentCount { getPosts(input: { limit: 10 }) { posts { id content commentCount } } }''"

definition postRequest :: request where
  "postRequest =
     \<lparr>url = ''/graphql'', upgrade = None, access_token = Some ''token'', authorization = None,
      body = Body (Text postQuery) (Text ''PostsWithCommentCount'')\<rparr>"

definition commentQuery :: string where
  "commentQuery = ''query { getComments(postId: 1, limit: 10) { comments { id content } hasMore } }''"

definition commentRequest :: request where
  "commentRequest =
     \<lparr>url = ''/graphql'', upgrade = None, access_token = Some ''token'', authorization = None,
      body = Body (Text commentQuery) Missing\<rparr>"

definition plainPostRequest :: request where
  "plainPostRequest =
     \<lparr>url = ''/graphql'', upgrade = None, access_token = Some ''token'', authorization = None,
      body = Body (Text ''mutation { deletePost(id: 1) { success message } }'') Missing\<rparr>"

definition upgradeRequest :: request where
  "upgradeRequest =
     \<lparr>url = ''/graphql'', upgrade = Some ''WebSocket'', access_token = Some ''token'',
      authorization = None, body = Body Missing Missing\<rparr>"

definition brokenRequest :: request where
  "brokenRequest =
     \<lparr>url = ''/graphql'', upgrade = None, access_token = Some ''token'', authorization = None,
      body = Refused 400\<rparr>"

definition numberRequest :: request where
  "numberRequest =
     \<lparr>url = ''/graphql'', upgrade = None, access_token = Some ''token'', authorization = None,
      body = Body Other Missing\<rparr>"

section \<open>The rule lookup\<close>

lemma getRateLimitRule_login:
  "getRateLimitRule inh ''/api/auth/login'' =
     Inr (JRule \<lparr>windowMs = 900000, maxRequests = 5,
       message = ''Qua nhieu lan dang nhap that bai. Vui long thu lai sau 15 phut.''\<rparr>)"
  by (simp add: getRateLimitRule_def pathParts_def split_def getProp_def rateLimitRules_def)

lemma getRateLimitRule_default_windowMs:
  "getRateLimitRule inh ''/api/default/windowMs'' = Inr (JNum 900000)"
  by (simp add: getRateLimitRule_def pathParts_def split_def getProp_def rateLimitRules_def)

text \<open>A path of fewer than two pieces gets the global default rule.\<close>

lemma getRateLimitRule_short:
  "length (pathParts path) < 2 \<Longrightarrow>
     getRateLimitRule inh path =
       Inr (JRule \<lparr>windowMs = 900000, maxRequests = 100,
         message = ''Qua nhieu requests. Vui long thu lai sau.''\<rparr>)"
  by (simp add: getRateLimitRule_def getProp_def rateLimitRules_def)

text \<open>The lookup reads the second and the third piece of the path and nothing else.\<close>

lemma getRateLimitRule_pieces:
  assumes "2 \<le> length (pathParts p)" and "2 \<le> length (pathParts q)"
      and "pathParts p ! 1 = pathParts q ! 1"
      and "drop 2 (take 3 (pathParts p)) = drop 2 (take 3 (pathParts q))"
  shows "getRateLimitRule inh p = getRateLimitRule inh q"
proof -
  have len: "2 < length (pathParts p) \<longleftrightarrow> 2 < length (pathParts q)"
    using arg_cong[OF assms(4), of length] assms(1,2) by auto
  have third: "2 < length (pathParts p) \<Longrightarrow> pathParts p ! 2 = pathParts q ! 2"
  proof -
    assume a: "2 < length (pathParts p)"
    then have b: "2 < length (pathParts q)" using len by simp
    have "drop 2 (take 3 (pathParts p)) ! 0 = pathParts p ! 2" using a by simp
    moreover have "drop 2 (take 3 (pathParts q)) ! 0 = pathParts q ! 2" using b by simp
    ultimately show ?thesis using assms(4) by simp
  qed
  have act: "(if 2 < length (pathParts p) then Some (pathParts p ! 2) else None) =
             (if 2 < length (pathParts q) then Some (pathParts q ! 2) else None)"
    using len third by simp
  have short: "\<not> length (pathParts p) < 2" "\<not> length (pathParts q) < 2"
    using assms(1,2) by simp_all
  show ?thesis
    unfolding getRateLimitRule_def Let_def act assms(3) using short by simp
qed

lemma getRateLimitRule_first_piece_ignored:
  "getRateLimitRule inh ''/anything/auth/login'' = getRateLimitRule inh ''/api/auth/login''"
  by (rule getRateLimitRule_pieces) (simp_all add: pathParts_def split_def)

text \<open>The lookup throws only if a read of a prototype does.\<close>

lemma getProp_total: "\<forall>v k. \<exists>x. inh v k = Inr x \<Longrightarrow> \<exists>x. getProp inh v k = Inr x"
  by (simp add: getProp_def split: option.split)

lemma getRateLimitRule_total:
  assumes "\<forall>v k. \<exists>x. inh v k = Inr x"
  shows "\<exists>x. getRateLimitRule inh path = Inr x"
proof -
  have p: "\<And>v k. \<exists>x. getProp inh v k = Inr x"
    using assms by (rule getProp_total)
  obtain d where d: "getProp inh rateLimitRules ''default'' = Inr d" using p by blast
  show ?thesis
  proof (cases "length (pathParts path) < 2")
    case True
    then show ?thesis using d by (simp add: getRateLimitRule_def)
  next
    case False
    obtain sr where sr: "getProp inh rateLimitRules (pathParts path ! 1) = Inr sr"
      using p by blast
    obtain sd where sd: "getProp inh sr ''default'' = Inr sd" using p by blast
    obtain sp where sp: "(case (if 2 < length (pathParts path) then Some (pathParts path ! 2) else None) of
                            None \<Rightarrow> Inr JUndefined
                          | Some a \<Rightarrow> getProp inh sr a) = Inr sp"
      using p by (cases "2 < length (pathParts path)") auto
    show ?thesis
      using False d sr sd sp by (simp add: getRateLimitRule_def Let_def)
  qed
qed

text \<open>
  With such a runtime every rule the lookup returns is a rule of the table, and every
  rule of the table has a positive window and admits at least one request.
\<close>

lemma builtinRuntime_no_rule: "builtinRuntime inh \<Longrightarrow> inh v k \<noteq> Inr (JRule r)"
  unfolding builtinRuntime_def by blast

lemma builtinRuntime_no_table: "builtinRuntime inh \<Longrightarrow> inh v k \<noteq> Inr (JTable ps)"
  unfolding builtinRuntime_def by blast

lemma getProp_rule:
  assumes "builtinRuntime inh" and "getProp inh v k = Inr (JRule r)"
  shows "\<exists>ps. v = JTable ps \<and> map_of ps k = Some (JRule r)"
  using assms(2) builtinRuntime_no_rule[OF assms(1), of v k r]
  by (cases v) (auto simp: getProp_def split: option.splits if_splits)

lemma getProp_table:
  assumes "builtinRuntime inh" and "getProp inh v k = Inr (JTable qs)"
  shows "\<exists>ps. v = JTable ps \<and> map_of ps k = Some (JTable qs)"
  using assms(2) builtinRuntime_no_table[OF assms(1), of v k qs]
  by (cases v) (auto simp: getProp_def split: option.splits if_splits)

lemma rule_origin:
  assumes "getRateLimitRule inh path = Inr (JRule r)"
  shows "getProp inh rateLimitRules ''default'' = Inr (JRule r)
         \<or> (\<exists>service sr k. getProp inh rateLimitRules service = Inr sr
               \<and> getProp inh sr k = Inr (JRule r))"
  using assms unfolding getRateLimitRule_def Let_def
  by (auto split: sum.splits if_splits option.splits)

lemma table_rule_positive:
  assumes b: "builtinRuntime inh"
      and g: "getRateLimitRule inh path = Inr (JRule r)"
  shows "0 < windowMs r \<and> 1 \<le> maxRequests r"
proof -
  from rule_origin[OF g] consider
      (top) "getProp inh rateLimitRules ''default'' = Inr (JRule r)"
    | (sub) service sr k where "getProp inh rateLimitRules service = Inr sr"
        and "getProp inh sr k = Inr (JRule r)"
    by blast
  then show ?thesis
  proof cases
    case top
    then show ?thesis by (auto simp: getProp_def rateLimitRules_def)
  next
    case sub
    from getProp_rule[OF b sub(2)] obtain ps where
      sr: "sr = JTable ps" and ps: "map_of ps k = Some (JRule r)" by blast
    from getProp_table[OF b sub(1)[unfolded sr]] have
      "map_of (case rateLimitRules of JTable t \<Rightarrow> t | _ \<Rightarrow> []) service = Some (JTable ps)"
      by (auto simp: rateLimitRules_def)
    then show ?thesis using ps
      by (auto simp: rateLimitRules_def split: if_splits)
  qed
qed

lemma builtinRuntime_noInherited: "builtinRuntime noInherited"
  by (simp add: builtinRuntime_def noInherited_def)

section \<open>The store seen through its windows\<close>

lemma window_putMembers:
  "window (putMembers st key e zs) k = (if k = key then zs else window st k)"
  by (simp add: window_def putMembers_def)

lemma window_zremrangebyscore:
  "window (zremrangebyscore st key lo hi) k =
     (if k = key then filter (\<lambda>(m, s). \<not> (lo \<le> s \<and> s \<le> hi)) (window st key)
      else window st k)"
  by (simp add: zremrangebyscore_def window_putMembers split: option.split) (simp add: window_def)

lemma zcard_window: "zcard st key = int (length (window st key))"
  by (simp add: zcard_def window_def split: option.split)

lemma window_zadd:
  "window (zadd st key score member) k =
     (if k = key then filter (\<lambda>(m, s). m \<noteq> member) (window st key) @ [(member, score)]
      else window st k)"
  by (simp add: zadd_def window_def split: option.split)

lemma window_expire:
  "window (expire st key seconds) k =
     (if k = key \<and> seconds \<le> 0 then [] else window st k)"
  by (simp add: expire_def window_def split: option.split)

lemma window_zrem:
  "window (zrem st key member) k =
     (if k = key then filter (\<lambda>(m, s). m \<noteq> member) (window st key) else window st k)"
  by (simp add: zrem_def window_putMembers split: option.split) (simp add: window_def)

lemma window_del: "window (del st keys) k = (if k \<in> set keys then [] else window st k)"
  by (simp add: del_def window_def)

lemma zrangeFirst_window:
  "zrangeFirst st key =
     (case window st key of [] \<Rightarrow> None | x # xs \<Rightarrow> Some (lowestFrom x xs))"
  by (simp add: zrangeFirst_def window_def split: option.split)

lemma zremrangebyscore_other: "k \<noteq> key \<Longrightarrow> zremrangebyscore st key lo hi k = st k"
  by (simp add: zremrangebyscore_def putMembers_def split: option.split)

lemma zremrangebyscore_none_in_range:
  assumes "\<forall>(m, s)\<in>set (window st key). \<not> (lo \<le> s \<and> s \<le> hi)"
      and "\<forall>e. st key = Some e \<longrightarrow> zmembers e \<noteq> []"
  shows "zremrangebyscore st key lo hi = st"
proof (cases "st key")
  case None
  then show ?thesis by (simp add: zremrangebyscore_def)
next
  case (Some e)
  with assms(1) have "filter (\<lambda>(m, s). \<not> (lo \<le> s \<and> s \<le> hi)) (zmembers e) = zmembers e"
    by (auto simp: window_def filter_id_conv)
  with Some assms(2) show ?thesis
    by (auto simp: zremrangebyscore_def putMembers_def)
qed

text \<open>\<open>lowestFrom\<close> picks a member of the list, and one of least score.\<close>

lemma lowestFrom_mem: "lowestFrom b xs \<in> set (b # xs)"
  by (induction xs arbitrary: b) auto

lemma lowestFrom_le: "x \<in> set (b # xs) \<Longrightarrow> snd (lowestFrom b xs) \<le> snd x"
proof (induction xs arbitrary: b x)
  case Nil
  then show ?case by simp
next
  case (Cons a xs)
  let ?c = "if snd a < snd b then a else b"
  have c: "snd (lowestFrom ?c xs) \<le> snd ?c"
    by (rule Cons.IH) simp
  have ca: "snd ?c \<le> snd a" and cb: "snd ?c \<le> snd b" by auto
  from Cons.prems consider "x = b" | "x = a" | "x \<in> set xs" by auto
  then show ?case
  proof cases
    case 1
    with c cb show ?thesis by simp
  next
    case 2
    with c ca show ?thesis by simp
  next
    case 3
    then have "snd (lowestFrom ?c xs) \<le> snd x" by (intro Cons.IH) simp
    then show ?thesis by simp
  qed
qed

lemma ceilDiv1000_pos: "0 < x \<Longrightarrow> 0 < ceilDiv1000 x"
  unfolding ceilDiv1000_def by linarith

section \<open>The limiter on a path that has a rule\<close>

lemma createRateLimiter_snd:
  "snd (createRateLimiter inh up st ip path now d1 d2) =
     (case snd (rateLimitTry inh up st ip path now d1 d2) of
        Inl e \<Rightarrow> Passed []
      | Inr out \<Rightarrow> out)"
  by (simp add: createRateLimiter_def split: prod.split sum.split)

lemma createRateLimiter_fst:
  "fst (createRateLimiter inh up st ip path now d1 d2) =
     fst (rateLimitTry inh up st ip path now d1 d2)"
  by (simp add: createRateLimiter_def split: prod.split sum.split)

lemma rateLimitTry_no_rule:
  assumes "\<forall>r. getRateLimitRule inh path \<noteq> Inr (JRule r)"
  shows "\<exists>e. snd (rateLimitTry inh up st ip path now d1 d2) = Inl e"
  using assms by (simp add: rateLimitTry_def Let_def split: sum.split jsval.split)

lemma rateLimitTry_rule:
  assumes "getRateLimitRule inh path = Inr (JRule r)" and "0 < windowMs r"
  shows "snd (rateLimitTry inh up st ip path now d1 d2) =
     (let w = live r now (window st (rateKey ip path));
          w3 = inserted (memberName now d1) now w
      in if \<not> up Pipeline then
           Inr (Passed
                   [(''X-RateLimit-Limit'', JNum (maxRequests r)),
                    (''X-RateLimit-Remaining'', JNaN),
                    (''X-RateLimit-Reset'', JIso (now + windowMs r))])
         else if maxRequests r \<le> int (length w) then
           (if \<not> up Zrange then Inl StoreError
            else if \<not> up Zrem then Inl StoreError
            else Inr (Sent 429
                   [(''X-RateLimit-Limit'', JNum (maxRequests r)),
                    (''X-RateLimit-Remaining'', JNum 0),
                    (''X-RateLimit-Reset'', JIso (now + windowMs r)),
                    (''Retry-After'', JNum (retryAfterOf r now w3))]
                   [(''success'', JBool False),
                    (''error'', JStr ''RATE_LIMIT_EXCEEDED''),
                    (''message'', JStr (message r)),
                    (''retryAfter'', JNum (retryAfterOf r now w3))]))
         else Inr (Passed
                   [(''X-RateLimit-Limit'', JNum (maxRequests r)),
                    (''X-RateLimit-Remaining'', JNum (max 0 (maxRequests r - int (length w) - 1))),
                    (''X-RateLimit-Reset'', JIso (now + windowMs r))]))"
  using assms ceilDiv1000_pos[of "windowMs r"]
  by (simp add: rateLimitTry_def Let_def zcard_window window_zremrangebyscore window_zadd
      window_expire zrangeFirst_window retryAfterOf_def live_def inserted_def split_beta
      split: list.split)

lemma rateLimitTry_rule_window:
  assumes "getRateLimitRule inh path = Inr (JRule r)" and "0 < windowMs r"
  shows "window (fst (rateLimitTry inh up st ip path now d1 d2)) k =
     (let w = live r now (window st (rateKey ip path));
          w3 = inserted (memberName now d1) now w
      in if k \<noteq> rateKey ip path \<or> \<not> up Pipeline then window st k
         else if maxRequests r \<le> int (length w) \<and> up Zrange \<and> up Zrem
           then filter (\<lambda>(m, s). m \<noteq> memberName now d2) w3
         else w3)"
  using assms ceilDiv1000_pos[of "windowMs r"]
  by (simp add: rateLimitTry_def Let_def zcard_window window_zremrangebyscore window_zadd
      window_expire window_zrem live_def inserted_def)

lemma retryAfterOf_pos:
  assumes "0 < windowMs r" and "\<forall>(m, s)\<in>set w. now - windowMs r < s"
  shows "0 < retryAfterOf r now w"
proof (cases w)
  case Nil
  with assms(1) show ?thesis by (simp add: retryAfterOf_def ceilDiv1000_pos)
next
  case (Cons x xs)
  have "lowestFrom x xs \<in> set w" using lowestFrom_mem[of x xs] Cons by simp
  with assms(2) have "now - windowMs r < snd (lowestFrom x xs)" by (auto simp: split_beta)
  then have "0 < snd (lowestFrom x xs) + windowMs r - now" by simp
  then show ?thesis using Cons by (simp add: retryAfterOf_def ceilDiv1000_pos)
qed

lemma live_inserted_recent:
  assumes "0 < windowMs r" and "\<forall>(m, s)\<in>set w. 0 \<le> s"
  shows "\<forall>(m, s)\<in>set (inserted member now (live r now w)). now - windowMs r < s"
  using assms by (auto simp: inserted_def live_def)

lemma inserted_new:
  "member \<notin> fst ` set w \<Longrightarrow> inserted member now w = w @ [(member, now)]"
  by (simp add: inserted_def filter_id_conv image_iff split_beta) force

lemma live_all_expired:
  "\<forall>(m, s)\<in>set w. 0 \<le> s \<and> s \<le> now - windowMs r \<Longrightarrow> live r now w = []"
  by (auto simp: live_def filter_empty_conv)

text \<open>
  The limiter writes the time of the request and nothing else: a store without
  negative scores stays one when the time is not negative.
\<close>

lemma scoresNonneg_empty: "scoresNonneg emptyStore"
  by (simp add: scoresNonneg_def window_def emptyStore_def)

lemma scoresNonneg_createRateLimiter:
  assumes "scoresNonneg st" and "0 \<le> now"
  shows "scoresNonneg (fst (createRateLimiter inh up st ip path now d1 d2))"
  using assms
  unfolding scoresNonneg_def createRateLimiter_fst rateLimitTry_def Let_def
  by (auto simp: window_zremrangebyscore window_zadd window_expire window_zrem
      split: sum.splits jsval.splits if_splits)

text \<open>One request that finds room in the window, and one that finds it full.\<close>

lemma admit_step:
  assumes rule: "getRateLimitRule inh path = Inr (JRule r)" and pos: "0 < windowMs r"
      and up: "up Pipeline"
      and w: "live r now (window st (rateKey ip path)) = w"
      and new: "memberName now d1 \<notin> fst ` set w"
      and room: "int (length w) < maxRequests r"
  shows "snd (createRateLimiter inh up st ip path now d1 d2) =
           Passed [(''X-RateLimit-Limit'', JNum (maxRequests r)),
                   (''X-RateLimit-Remaining'', JNum (maxRequests r - int (length w) - 1)),
                   (''X-RateLimit-Reset'', JIso (now + windowMs r))]"
    and "window (fst (createRateLimiter inh up st ip path now d1 d2)) (rateKey ip path) =
           w @ [(memberName now d1, now)]"
  using up w room inserted_new[OF new]
  by (simp_all add: createRateLimiter_snd createRateLimiter_fst rateLimitTry_rule[OF rule pos]
      rateLimitTry_rule_window[OF rule pos] Let_def)

lemma reject_step:
  assumes rule: "getRateLimitRule inh path = Inr (JRule r)" and pos: "0 < windowMs r"
      and up: "up Pipeline" "up Zrange" "up Zrem"
      and w: "live r now (window st (rateKey ip path)) = w"
      and new: "memberName now d1 \<notin> fst ` set w"
      and full: "maxRequests r \<le> int (length w)"
  shows "snd (createRateLimiter inh up st ip path now d1 d2) =
           Sent 429
             [(''X-RateLimit-Limit'', JNum (maxRequests r)),
              (''X-RateLimit-Remaining'', JNum 0),
              (''X-RateLimit-Reset'', JIso (now + windowMs r)),
              (''Retry-After'', JNum (retryAfterOf r now (w @ [(memberName now d1, now)])))]
             [(''success'', JBool False),
              (''error'', JStr ''RATE_LIMIT_EXCEEDED''),
              (''message'', JStr (message r)),
              (''retryAfter'', JNum (retryAfterOf r now (w @ [(memberName now d1, now)])))]"
  using up w full inserted_new[OF new]
  by (simp add: createRateLimiter_snd rateLimitTry_rule[OF rule pos] Let_def)

lemma serve_snd_Cons:
  "snd (serve inh up st (q # qs)) =
     snd (createRateLimiter inh up st (r_ip q) (r_path q) (r_now q) (r_draw1 q) (r_draw2 q)) #
     snd (serve inh up
            (fst (createRateLimiter inh up st (r_ip q) (r_path q) (r_now q) (r_draw1 q) (r_draw2 q)))
            qs)"
  by (simp split: prod.split)

lemma getRateLimitStatus_fst:
  "fst (getRateLimitStatus inh up st ip path now) =
     (case getRateLimitRule inh path of
        Inl e \<Rightarrow> st
      | Inr v \<Rightarrow>
          (case v of
             JRule r \<Rightarrow>
               if up Zremrangebyscore
               then zremrangebyscore st (rateKey ip path) 0 (now - windowMs r) else st
           | _ \<Rightarrow> st))"
  by (simp add: getRateLimitStatus_def Let_def split: sum.split jsval.split)

text \<open>
  A rejected request whose two draws differ leaves its member in the set; a reset of one
  path followed by a request to it, on a path that has a rule.
\<close>

lemma memberName_inject: "memberName now d1 = memberName now d2 \<longleftrightarrow> d1 = d2"
  by (simp add: memberName_def)

lemma rejected_keeps_member:
  assumes rule: "getRateLimitRule inh path = Inr (JRule r)" and pos: "0 < windowMs r"
      and up: "up Pipeline" "up Zrange" "up Zrem"
      and full: "maxRequests r \<le> int (length (live r now (window st (rateKey ip path))))"
      and draws: "d1 \<noteq> d2"
  shows "(memberName now d1, now) \<in>
           set (window (fst (createRateLimiter inh up st ip path now d1 d2)) (rateKey ip path))"
  using up full draws
  by (simp add: createRateLimiter_fst rateLimitTry_rule_window[OF rule pos] Let_def
      inserted_def memberName_inject)

lemma reset_restores_quota:
  assumes rule: "getRateLimitRule inh path = Inr (JRule r)"
      and pos: "0 < windowMs r" and mx: "1 \<le> maxRequests r"
      and up: "up Del" "up Pipeline"
      and path: "path \<noteq> ''*''"
  shows "resetRateLimit keysOf up st ip path = (del st [rateKey ip path], True)"
    and "zcard (zremrangebyscore (del st [rateKey ip path]) (rateKey ip path) 0 (now - windowMs r))
           (rateKey ip path) = 0"
    and "snd (createRateLimiter inh up (fst (resetRateLimit keysOf up st ip path)) ip path now d1 d2) =
           Passed [(''X-RateLimit-Limit'', JNum (maxRequests r)),
                   (''X-RateLimit-Remaining'', JNum (maxRequests r - 1)),
                   (''X-RateLimit-Reset'', JIso (now + windowMs r))]"
proof -
  show r: "resetRateLimit keysOf up st ip path = (del st [rateKey ip path], True)"
    using up path by (simp add: resetRateLimit_def)
  show "zcard (zremrangebyscore (del st [rateKey ip path]) (rateKey ip path) 0 (now - windowMs r))
           (rateKey ip path) = 0"
    by (simp add: zcard_window window_zremrangebyscore window_del)
  have l: "live r now (window (del st [rateKey ip path]) (rateKey ip path)) = []"
    by (simp add: window_del live_def)
  show "snd (createRateLimiter inh up (fst (resetRateLimit keysOf up st ip path)) ip path now d1 d2) =
           Passed [(''X-RateLimit-Limit'', JNum (maxRequests r)),
                   (''X-RateLimit-Remaining'', JNum (maxRequests r - 1)),
                   (''X-RateLimit-Reset'', JIso (now + windowMs r))]"
    using admit_step(1)[where up = up and ?d1.0 = d1 and ?d2.0 = d2, OF rule pos up(2) l] mx
    by (simp add: r)
qed

section \<open>Routing\<close>

lemma startsWith_Cons_iff:
  "startsWith s (p # ps) \<longleftrightarrow> (\<exists>cs. s = p # cs \<and> startsWith cs ps)"
  by (cases s) auto

lemma graphql_not_notifications:
  "startsWith u ''/graphql'' \<Longrightarrow> \<not> startsWith u ''/notifications/socket.io''"
  by (auto simp: startsWith_Cons_iff)

text \<open>Every operation of the comment service is among the texts the route looks for.\<close>

lemma mentions_comment_routes:
  "mentions commentOperations s \<Longrightarrow> routesToComment (Text s) operationName = Inr True"
  by (auto simp: mentions_def commentOperations_def routesToComment_def orThen_def)

text \<open>
  The test in closed form: a \<open>TypeError\<close> on a query without \<open>includes\<close>; else true when
  the query holds one of the seven texts; else the search of \<open>comment\<close> in the operation
  name, a \<open>TypeError\<close> when it is not a text.
\<close>

lemma routesToComment_closed:
  "routesToComment query operationName =
     (if query = Other then Inl TypeError
      else if list_ex (\<lambda>p. fieldIncludes query p = Inr True) commentKeywords then Inr True
      else lowerIncludes operationName ''comment'')"
  by (cases query) (simp_all add: routesToComment_def orThen_def commentKeywords_def)

text \<open>
  The two stores with members are stores the limiter writes: five requests to the login
  path, a millisecond apart, and two requests, 500 seconds apart.
\<close>

lemma busyStore_reached:
  "fst (serve noInherited allUp emptyStore
     [\<lparr>r_ip = ''203.0.113.7'', r_path = ''/api/auth/login'', r_now = 1000000, r_draw1 = ''0.11'', r_draw2 = ''0.21''\<rparr>,
      \<lparr>r_ip = ''203.0.113.7'', r_path = ''/api/auth/login'', r_now = 1000001, r_draw1 = ''0.12'', r_draw2 = ''0.22''\<rparr>,
      \<lparr>r_ip = ''203.0.113.7'', r_path = ''/api/auth/login'', r_now = 1000002, r_draw1 = ''0.13'', r_draw2 = ''0.23''\<rparr>,
      \<lparr>r_ip = ''203.0.113.7'', r_path = ''/api/auth/login'', r_now = 1000003, r_draw1 = ''0.14'', r_draw2 = ''0.24''\<rparr>,
      \<lparr>r_ip = ''203.0.113.7'', r_path = ''/api/auth/login'', r_now = 1000004, r_draw1 = ''0.15'', r_draw2 = ''0.25''\<rparr>])
   = busyStore"
  by (simp add: createRateLimiter_def rateLimitTry_def getRateLimitRule_login busyStore_def
      allUp_def emptyStore_def zremrangebyscore_def putMembers_def zcard_def zadd_def expire_def
      ceilDiv1000_def Let_def memberName_def showInt_def digits.simps)

lemma agedStore_reached:
  "fst (serve noInherited allUp emptyStore
     [\<lparr>r_ip = ''203.0.113.7'', r_path = ''/api/auth/login'', r_now = 1000000, r_draw1 = ''0.11'', r_draw2 = ''0.21''\<rparr>,
      \<lparr>r_ip = ''203.0.113.7'', r_path = ''/api/auth/login'', r_now = 1500000, r_draw1 = ''0.12'', r_draw2 = ''0.22''\<rparr>])
   = agedStore"
  by (simp add: createRateLimiter_def rateLimitTry_def getRateLimitRule_login agedStore_def
      allUp_def emptyStore_def zremrangebyscore_def putMembers_def zcard_def zadd_def expire_def
      ceilDiv1000_def Let_def memberName_def showInt_def digits.simps)

section \<open>The claims\<close>

text \<open>
  Claim C1. The code fails the claim. The sixth request of an identity to the login
  path finds five members in the window and is answered 429, but the member written
  for it stays in the set: \<open>zrem\<close> is given a member built from a second call of
  \<open>Math.random()\<close>, not the member that \<open>zadd\<close> wrote. The set holds six members
  afterwards.
\<close>

theorem rejected_member_not_removed:
  "createRateLimiter noInherited allUp busyStore ''203.0.113.7'' ''/api/auth/login''
     1000005 ''0.25'' ''0.75''
   = (busyStore(rateKey ''203.0.113.7'' ''/api/auth/login'' \<mapsto>
        \<lparr>zmembers = [(''1000000-0.11'', 1000000), (''1000001-0.12'', 1000001),
                     (''1000002-0.13'', 1000002), (''1000003-0.14'', 1000003),
                     (''1000004-0.15'', 1000004), (''1000005-0.25'', 1000005)],
         ttl = Some 900\<rparr>),
      Sent 429
        [(''X-RateLimit-Limit'', JNum 5),
         (''X-RateLimit-Remaining'', JNum 0),
         (''X-RateLimit-Reset'', JIso 1900005),
         (''Retry-After'', JNum 900)]
        [(''success'', JBool False),
         (''error'', JStr ''RATE_LIMIT_EXCEEDED''),
         (''message'', JStr ''Qua nhieu lan dang nhap that bai. Vui long thu lai sau 15 phut.''),
         (''retryAfter'', JNum 900)])"
  by (simp add: createRateLimiter_def rateLimitTry_def getRateLimitRule_login busyStore_def
      allUp_def zremrangebyscore_def putMembers_def zcard_def zadd_def expire_def
      ceilDiv1000_def zrangeFirst_def zrem_def Let_def memberName_def showInt_def digits.simps)

text \<open>
  Claim C2. Under the login rule (a window of 900000 ms, five requests), six requests
  that one identity sends one after the other to the login path, the last less than a
  window after the first, on a key that holds nothing younger than a window, with the
  store answering: the first five are passed on, with 4, 3, 2, 1 and 0 requests
  remaining, and the sixth is answered 429 with \<open>X-RateLimit-Remaining\<close> 0. The members
  written for the six requests differ (two are equal only when two requests of the same
  millisecond draw the same random number).
\<close>

theorem login_sixth_request_rejected:
  fixes t1 t2 t3 t4 t5 t6 :: int
  assumes quiet: "\<forall>(m, s)\<in>set (window st (rateKey ip ''/api/auth/login'')).
                     0 \<le> s \<and> s \<le> t1 - 900000"
      and order: "t1 \<le> t2" "t2 \<le> t3" "t3 \<le> t4" "t4 \<le> t5" "t5 \<le> t6"
      and within: "t6 < t1 + 900000"
      and nonces: "distinct [memberName t1 d1, memberName t2 d2, memberName t3 d3,
                             memberName t4 d4, memberName t5 d5, memberName t6 d6]"
  shows "snd (serve inh allUp st
             [\<lparr>r_ip = ip, r_path = ''/api/auth/login'', r_now = t1, r_draw1 = d1, r_draw2 = e1\<rparr>,
              \<lparr>r_ip = ip, r_path = ''/api/auth/login'', r_now = t2, r_draw1 = d2, r_draw2 = e2\<rparr>,
              \<lparr>r_ip = ip, r_path = ''/api/auth/login'', r_now = t3, r_draw1 = d3, r_draw2 = e3\<rparr>,
              \<lparr>r_ip = ip, r_path = ''/api/auth/login'', r_now = t4, r_draw1 = d4, r_draw2 = e4\<rparr>,
              \<lparr>r_ip = ip, r_path = ''/api/auth/login'', r_now = t5, r_draw1 = d5, r_draw2 = e5\<rparr>,
              \<lparr>r_ip = ip, r_path = ''/api/auth/login'', r_now = t6, r_draw1 = d6, r_draw2 = e6\<rparr>])
         = [Passed [(''X-RateLimit-Limit'', JNum 5), (''X-RateLimit-Remaining'', JNum 4),
                   (''X-RateLimit-Reset'', JIso (t1 + 900000))],
           Passed [(''X-RateLimit-Limit'', JNum 5), (''X-RateLimit-Remaining'', JNum 3),
                   (''X-RateLimit-Reset'', JIso (t2 + 900000))],
           Passed [(''X-RateLimit-Limit'', JNum 5), (''X-RateLimit-Remaining'', JNum 2),
                   (''X-RateLimit-Reset'', JIso (t3 + 900000))],
           Passed [(''X-RateLimit-Limit'', JNum 5), (''X-RateLimit-Remaining'', JNum 1),
                   (''X-RateLimit-Reset'', JIso (t4 + 900000))],
           Passed [(''X-RateLimit-Limit'', JNum 5), (''X-RateLimit-Remaining'', JNum 0),
                   (''X-RateLimit-Reset'', JIso (t5 + 900000))],
            Sent 429
              [(''X-RateLimit-Limit'', JNum 5),
               (''X-RateLimit-Remaining'', JNum 0),
               (''X-RateLimit-Reset'', JIso (t6 + 900000)),
               (''Retry-After'', JNum (ceilDiv1000 (t1 + 900000 - t6)))]
              [(''success'', JBool False),
               (''error'', JStr ''RATE_LIMIT_EXCEEDED''),
               (''message'', JStr ''Qua nhieu lan dang nhap that bai. Vui long thu lai sau 15 phut.''),
               (''retryAfter'', JNum (ceilDiv1000 (t1 + 900000 - t6)))]]"
proof -
  define r where "r = \<lparr>windowMs = 900000, maxRequests = 5,
     message = ''Qua nhieu lan dang nhap that bai. Vui long thu lai sau 15 phut.''\<rparr>"
  define p where "p = ''/api/auth/login''"
  have rule: "getRateLimitRule inh p = Inr (JRule r)"
    by (simp add: r_def p_def getRateLimitRule_login)
  have pos: "0 < windowMs r" and mx: "maxRequests r = 5" and wm: "windowMs r = 900000"
    and msg: "message r = ''Qua nhieu lan dang nhap that bai. Vui long thu lai sau 15 phut.''"
    by (simp_all add: r_def)
  have up: "allUp Pipeline" "allUp Zrange" "allUp Zrem" by (simp_all add: allUp_def)
  define s1 where "s1 = fst (createRateLimiter inh allUp st ip p t1 d1 e1)"
  define s2 where "s2 = fst (createRateLimiter inh allUp s1 ip p t2 d2 e2)"
  define s3 where "s3 = fst (createRateLimiter inh allUp s2 ip p t3 d3 e3)"
  define s4 where "s4 = fst (createRateLimiter inh allUp s3 ip p t4 d4 e4)"
  define s5 where "s5 = fst (createRateLimiter inh allUp s4 ip p t5 d5 e5)"
  have l0: "live r t1 (window st (rateKey ip p)) = []"
    using quiet by (intro live_all_expired) (simp add: wm p_def)
  have o1: "snd (createRateLimiter inh allUp st ip p t1 d1 e1) =
      Passed [(''X-RateLimit-Limit'', JNum 5), (''X-RateLimit-Remaining'', JNum 4),
              (''X-RateLimit-Reset'', JIso (t1 + 900000))]"
    and w1: "window s1 (rateKey ip p) = [(memberName t1 d1, t1)]"
    using admit_step[where up = allUp and ?d1.0 = d1 and ?d2.0 = e1, OF rule pos up(1) l0]
    by (simp_all add: mx wm s1_def)
  have l1: "live r t2 (window s1 (rateKey ip p)) = [(memberName t1 d1, t1)]"
    using order within by (simp add: w1 live_def wm)
  have o2: "snd (createRateLimiter inh allUp s1 ip p t2 d2 e2) =
      Passed [(''X-RateLimit-Limit'', JNum 5), (''X-RateLimit-Remaining'', JNum 3),
              (''X-RateLimit-Reset'', JIso (t2 + 900000))]"
    and w2: "window s2 (rateKey ip p) = [(memberName t1 d1, t1), (memberName t2 d2, t2)]"
    using admit_step[where up = allUp and ?d1.0 = d2 and ?d2.0 = e2, OF rule pos up(1) l1] nonces
    by (auto simp: mx wm s2_def)
  have l2: "live r t3 (window s2 (rateKey ip p)) =
      [(memberName t1 d1, t1), (memberName t2 d2, t2)]"
    using order within by (simp add: w2 live_def wm)
  have o3: "snd (createRateLimiter inh allUp s2 ip p t3 d3 e3) =
      Passed [(''X-RateLimit-Limit'', JNum 5), (''X-RateLimit-Remaining'', JNum 2),
              (''X-RateLimit-Reset'', JIso (t3 + 900000))]"
    and w3: "window s3 (rateKey ip p) =
      [(memberName t1 d1, t1), (memberName t2 d2, t2), (memberName t3 d3, t3)]"
    using admit_step[where up = allUp and ?d1.0 = d3 and ?d2.0 = e3, OF rule pos up(1) l2] nonces
    by (auto simp: mx wm s3_def)
  have l3: "live r t4 (window s3 (rateKey ip p)) =
      [(memberName t1 d1, t1), (memberName t2 d2, t2), (memberName t3 d3, t3)]"
    using order within by (simp add: w3 live_def wm)
  have o4: "snd (createRateLimiter inh allUp s3 ip p t4 d4 e4) =
      Passed [(''X-RateLimit-Limit'', JNum 5), (''X-RateLimit-Remaining'', JNum 1),
              (''X-RateLimit-Reset'', JIso (t4 + 900000))]"
    and w4: "window s4 (rateKey ip p) =
      [(memberName t1 d1, t1), (memberName t2 d2, t2), (memberName t3 d3, t3),
       (memberName t4 d4, t4)]"
    using admit_step[where up = allUp and ?d1.0 = d4 and ?d2.0 = e4, OF rule pos up(1) l3] nonces
    by (auto simp: mx wm s4_def)
  have l4: "live r t5 (window s4 (rateKey ip p)) =
      [(memberName t1 d1, t1), (memberName t2 d2, t2), (memberName t3 d3, t3),
       (memberName t4 d4, t4)]"
    using order within by (simp add: w4 live_def wm)
  have o5: "snd (createRateLimiter inh allUp s4 ip p t5 d5 e5) =
      Passed [(''X-RateLimit-Limit'', JNum 5), (''X-RateLimit-Remaining'', JNum 0),
              (''X-RateLimit-Reset'', JIso (t5 + 900000))]"
    and w5: "window s5 (rateKey ip p) =
      [(memberName t1 d1, t1), (memberName t2 d2, t2), (memberName t3 d3, t3),
       (memberName t4 d4, t4), (memberName t5 d5, t5)]"
    using admit_step[where up = allUp and ?d1.0 = d5 and ?d2.0 = e5, OF rule pos up(1) l4] nonces
    by (auto simp: mx wm s5_def)
  have l5: "live r t6 (window s5 (rateKey ip p)) =
      [(memberName t1 d1, t1), (memberName t2 d2, t2), (memberName t3 d3, t3),
       (memberName t4 d4, t4), (memberName t5 d5, t5)]"
    using order within by (simp add: w5 live_def wm)
  have ra: "retryAfterOf r t6
      [(memberName t1 d1, t1), (memberName t2 d2, t2), (memberName t3 d3, t3),
       (memberName t4 d4, t4), (memberName t5 d5, t5), (memberName t6 d6, t6)] =
      ceilDiv1000 (t1 + 900000 - t6)"
    using order by (simp add: retryAfterOf_def wm)
  have o6: "snd (createRateLimiter inh allUp s5 ip p t6 d6 e6) =
      Sent 429
        [(''X-RateLimit-Limit'', JNum 5),
         (''X-RateLimit-Remaining'', JNum 0),
         (''X-RateLimit-Reset'', JIso (t6 + 900000)),
         (''Retry-After'', JNum (ceilDiv1000 (t1 + 900000 - t6)))]
        [(''success'', JBool False),
         (''error'', JStr ''RATE_LIMIT_EXCEEDED''),
         (''message'', JStr ''Qua nhieu lan dang nhap that bai. Vui long thu lai sau 15 phut.''),
         (''retryAfter'', JNum (ceilDiv1000 (t1 + 900000 - t6)))]"
    using reject_step[where up = allUp and ?d1.0 = d6 and ?d2.0 = e6, OF rule pos up l5] nonces ra
    by (auto simp: mx wm msg)
  show ?thesis
    unfolding p_def[symmetric]
    by (simp add: serve_snd_Cons o1 o2 o3 o4 o5 o6
        s1_def[symmetric] s2_def[symmetric] s3_def[symmetric] s4_def[symmetric] s5_def[symmetric]
        del: serve.simps(2))
qed

text \<open>Six requests of one identity, a millisecond apart, on a store without keys.\<close>

theorem login_sixth_request_rejected_witness:
  "snd (serve noInherited allUp emptyStore
         [\<lparr>r_ip = ''203.0.113.7'', r_path = ''/api/auth/login'', r_now = 1000000, r_draw1 = ''0.11'', r_draw2 = ''0.21''\<rparr>,
          \<lparr>r_ip = ''203.0.113.7'', r_path = ''/api/auth/login'', r_now = 1000001, r_draw1 = ''0.12'', r_draw2 = ''0.22''\<rparr>,
          \<lparr>r_ip = ''203.0.113.7'', r_path = ''/api/auth/login'', r_now = 1000002, r_draw1 = ''0.13'', r_draw2 = ''0.23''\<rparr>,
          \<lparr>r_ip = ''203.0.113.7'', r_path = ''/api/auth/login'', r_now = 1000003, r_draw1 = ''0.14'', r_draw2 = ''0.24''\<rparr>,
          \<lparr>r_ip = ''203.0.113.7'', r_path = ''/api/auth/login'', r_now = 1000004, r_draw1 = ''0.15'', r_draw2 = ''0.25''\<rparr>,
          \<lparr>r_ip = ''203.0.113.7'', r_path = ''/api/auth/login'', r_now = 1000005, r_draw1 = ''0.16'', r_draw2 = ''0.26''\<rparr>])
   = [Passed [(''X-RateLimit-Limit'', JNum 5), (''X-RateLimit-Remaining'', JNum 4),
               (''X-RateLimit-Reset'', JIso (1900000))],
       Passed [(''X-RateLimit-Limit'', JNum 5), (''X-RateLimit-Remaining'', JNum 3),
               (''X-RateLimit-Reset'', JIso (1900001))],
       Passed [(''X-RateLimit-Limit'', JNum 5), (''X-RateLimit-Remaining'', JNum 2),
               (''X-RateLimit-Reset'', JIso (1900002))],
       Passed [(''X-RateLimit-Limit'', JNum 5), (''X-RateLimit-Remaining'', JNum 1),
               (''X-RateLimit-Reset'', JIso (1900003))],
       Passed [(''X-RateLimit-Limit'', JNum 5), (''X-RateLimit-Remaining'', JNum 0),
               (''X-RateLimit-Reset'', JIso (1900004))],
      Sent 429
        [(''X-RateLimit-Limit'', JNum 5),
         (''X-RateLimit-Remaining'', JNum 0),
         (''X-RateLimit-Reset'', JIso 1900005),
         (''Retry-After'', JNum 900)]
        [(''success'', JBool False),
         (''error'', JStr ''RATE_LIMIT_EXCEEDED''),
         (''message'', JStr ''Qua nhieu lan dang nhap that bai. Vui long thu lai sau 15 phut.''),
         (''retryAfter'', JNum 900)]]"
proof -
  have q: "\<forall>(m, s)\<in>set (window emptyStore (rateKey ''203.0.113.7'' ''/api/auth/login'')).
             0 \<le> s \<and> s \<le> 1000000 - 900000"
    by (simp add: window_def emptyStore_def)
  have d: "distinct [memberName 1000000 ''0.11'', memberName 1000001 ''0.12'',
                     memberName 1000002 ''0.13'', memberName 1000003 ''0.14'',
                     memberName 1000004 ''0.15'', memberName 1000005 ''0.16'']"
    by (simp add: memberName_def showInt_def digits.simps)
  from login_sixth_request_rejected[of emptyStore "''203.0.113.7''" 1000000 1000001 1000002
      1000003 1000004 1000005 "''0.11''" "''0.12''" "''0.13''" "''0.14''" "''0.15''" "''0.16''"
      noInherited "''0.21''" "''0.22''" "''0.23''" "''0.24''" "''0.25''" "''0.26''", OF q _ _ _ _ _ _ d]
  show ?thesis by (simp add: ceilDiv1000_def)
qed

text \<open>
  Claim C3. A request that is not a WebSocket upgrade, handled while the breaker of its
  service is open, is answered at once with status 503 and the fallback body
  (\<open>success\<close> false, \<open>error\<close> SERVICE_UNAVAILABLE, the name of the service, the time);
  whether the headers of the response were sent already or not, the request is never
  handed to the proxy.
\<close>

theorem open_breaker_fast_fail:
  assumes "opened b" and "\<not> isWebSocket upg"
  shows "createCircuitBreakerProxy serviceName b upg False now =
           Responded 503
             [(''success'', JBool False),
              (''error'', JStr ''SERVICE_UNAVAILABLE''),
              (''message'',
               JStr (serviceName @ '' is temporarily unavailable. Please try again later.'')),
              (''service'', JStr serviceName),
              (''timestamp'', JIso now)]
         \<and> (\<forall>sent. createCircuitBreakerProxy serviceName b upg sent now \<in>
               {Responded 503 (createFallbackResponse serviceName now), Unanswered})"
  using assms by (simp add: createCircuitBreakerProxy_def createFallbackResponse_def)

text \<open>A request to the auth service while its breaker is open.\<close>

theorem open_breaker_fast_fail_witness:
  "opened (openBreakers ''auth'') \<and> \<not> isWebSocket None
   \<and> createCircuitBreakerProxy ''auth'' (openBreakers ''auth'') None False 1700000000000 =
       Responded 503
         [(''success'', JBool False),
          (''error'', JStr ''SERVICE_UNAVAILABLE''),
          (''message'', JStr ''auth is temporarily unavailable. Please try again later.''),
          (''service'', JStr ''auth''),
          (''timestamp'', JIso 1700000000000)]"
proof -
  have a: "opened (openBreakers ''auth'')" by (simp add: openBreakers_def)
  have b: "\<not> isWebSocket None" by (simp add: isWebSocket_def)
  from open_breaker_fast_fail[OF a b, of "''auth''" 1700000000000] a b show ?thesis by simp
qed

text \<open>
  Claim C4, as amended. A request that reaches the handlers of the shared GraphQL path
  and fails authentication is answered 401 or 403. For one that carries a valid token:
  a WebSocket upgrade goes to the WebSocket proxy of the comment service, by the route
  and by the server's upgrade handler alike. For an HTTP request: a body that the JSON
  parser refuses is answered by the error handler with the status of the parser's
  error (400 when the JSON does not parse); a query that is truthy and neither text
  nor array is answered by the error handler with 500; a query that holds one of the
  seven texts the route
  looks for (as a part of the text, or as an element of the array), and so every query
  that is a text with an operation of the comment service, goes to the proxy of the
  comment service; otherwise the operation name decides: a text with \<open>comment\<close> in any
  letter case goes to the proxy of the comment service, any other text or no operation
  name goes to the proxy of the post service, and a truthy value that is not a text is
  answered by the error handler with 500. The proxy of a service forwards the request
  unless the breaker of that service is open; it answers 503 then, or nothing when the
  headers of the response were sent already.
\<close>

theorem graphql_routing:
  "(\<forall>answer. authenticateToken verify rq = Inl answer \<longrightarrow>
      graphqlRoute verify breakers rq sent now = answer
      \<and> (\<exists>b. answer = Responded 401 b \<or> answer = Responded 403 b))
   \<and> (authenticateToken verify rq = Inr user \<longrightarrow>
        (isWebSocket (upgrade rq) \<longrightarrow>
           graphqlRoute verify breakers rq sent now = ProxiedWs ''comment'')
        \<and> (\<not> isWebSocket (upgrade rq) \<longrightarrow>
             (\<forall>status. body rq = Refused status \<longrightarrow>
                graphqlRoute verify breakers rq sent now =
                  Failed (if status = 0 then 500 else status))
             \<and> (body rq = Body q n \<longrightarrow>
                  graphqlRoute verify breakers rq sent now =
                    (let guarded = (\<lambda>service.
                           if opened (breakers service)
                           then (if sent then Unanswered
                                 else Responded 503 (createFallbackResponse service now))
                           else Proxied service True)
                     in if q = Other then Failed 500
                        else if list_ex (\<lambda>p. fieldIncludes q p = Inr True) commentKeywords
                          then guarded ''comment''
                        else (case lowerIncludes n ''comment'' of
                                Inl e \<Rightarrow> Failed 500
                              | Inr c \<Rightarrow> guarded (if c then ''comment'' else ''post'')))
                  \<and> (\<forall>s. q = Text s \<longrightarrow> mentions commentOperations s \<longrightarrow>
                         graphqlRoute verify breakers rq sent now =
                           (if opened (breakers ''comment'')
                            then (if sent then Unanswered
                                  else Responded 503 (createFallbackResponse ''comment'' now))
                            else Proxied ''comment'' True)))))
   \<and> (startsWith (url rq) ''/graphql'' \<longrightarrow> isWebSocket (upgrade rq) \<longrightarrow>
        onUpgrade rq = Some ''comment'')"
proof -
  have up: "startsWith (url rq) ''/graphql'' \<Longrightarrow>
            \<not> startsWith (url rq) ''/notifications/socket.io''"
    by (rule graphql_not_notifications)
  have m: "\<And>s. mentions commentOperations s \<Longrightarrow> routesToComment (Text s) n = Inr True"
    by (rule mentions_comment_routes)
  have c: "routesToComment q n =
     (if q = Other then Inl TypeError
      else if list_ex (\<lambda>p. fieldIncludes q p = Inr True) commentKeywords then Inr True
      else lowerIncludes n ''comment'')"
    by (rule routesToComment_closed)
  have a: "\<forall>answer. authenticateToken verify rq = Inl answer \<longrightarrow>
      graphqlRoute verify breakers rq sent now = answer
      \<and> (\<exists>b. answer = Responded 401 b \<or> answer = Responded 403 b)"
    by (auto simp: graphqlRoute_def authenticateToken_def split: option.splits if_splits)
  have w: "authenticateToken verify rq = Inr user \<Longrightarrow> isWebSocket (upgrade rq) \<Longrightarrow>
           graphqlRoute verify breakers rq sent now = ProxiedWs ''comment''"
    by (simp add: graphqlRoute_def)
  have b: "\<And>status. authenticateToken verify rq = Inr user \<Longrightarrow>
           \<not> isWebSocket (upgrade rq) \<Longrightarrow> body rq = Refused status \<Longrightarrow>
           graphqlRoute verify breakers rq sent now = Failed (if status = 0 then 500 else status)"
    by (simp add: graphqlRoute_def)
  have r: "authenticateToken verify rq = Inr user \<Longrightarrow> \<not> isWebSocket (upgrade rq) \<Longrightarrow>
           body rq = Body q n \<Longrightarrow>
           graphqlRoute verify breakers rq sent now =
             (case routesToComment q n of
                Inl e \<Rightarrow> Failed 500
              | Inr x \<Rightarrow>
                  if opened (breakers (if x then ''comment'' else ''post''))
                  then (if sent then Unanswered
                        else Responded 503
                               (createFallbackResponse (if x then ''comment'' else ''post'') now))
                  else Proxied (if x then ''comment'' else ''post'') True)"
    by (simp add: graphqlRoute_def createCircuitBreakerProxy_def split: sum.split)
  have r1: "authenticateToken verify rq = Inr user \<Longrightarrow> \<not> isWebSocket (upgrade rq) \<Longrightarrow>
           body rq = Body q n \<Longrightarrow>
           graphqlRoute verify breakers rq sent now =
             (let guarded = (\<lambda>service.
                    if opened (breakers service)
                    then (if sent then Unanswered
                          else Responded 503 (createFallbackResponse service now))
                    else Proxied service True)
              in if q = Other then Failed 500
                 else if list_ex (\<lambda>p. fieldIncludes q p = Inr True) commentKeywords
                   then guarded ''comment''
                 else (case lowerIncludes n ''comment'' of
                         Inl e \<Rightarrow> Failed 500
                       | Inr c \<Rightarrow> guarded (if c then ''comment'' else ''post'')))"
    unfolding r c by (simp add: Let_def split: sum.split)
  have r2: "\<And>s. authenticateToken verify rq = Inr user \<Longrightarrow> \<not> isWebSocket (upgrade rq) \<Longrightarrow>
           body rq = Body q n \<Longrightarrow> q = Text s \<Longrightarrow> mentions commentOperations s \<Longrightarrow>
           graphqlRoute verify breakers rq sent now =
             (if opened (breakers ''comment'')
              then (if sent then Unanswered
                    else Responded 503 (createFallbackResponse ''comment'' now))
              else Proxied ''comment'' True)"
    using m by (simp add: r)
  have u: "startsWith (url rq) ''/graphql'' \<Longrightarrow> isWebSocket (upgrade rq) \<Longrightarrow>
           onUpgrade rq = Some ''comment''"
    using up by (simp add: onUpgrade_def)
  from a w b r1 r2 u show ?thesis by blast
qed

text \<open>
  A query of the comment service, a mutation of the post service, a WebSocket upgrade,
  a body that does not parse and a body whose query is a number, the breakers closed;
  and the query of the comment service while the breakers are open.
\<close>

theorem graphql_routing_witness:
  "graphqlRoute acceptToken closedBreakers commentRequest False 1700000000000 =
     Proxied ''comment'' True
   \<and> graphqlRoute acceptToken closedBreakers plainPostRequest False 1700000000000 =
       Proxied ''post'' True
   \<and> graphqlRoute acceptToken closedBreakers upgradeRequest False 1700000000000 =
       ProxiedWs ''comment''
   \<and> onUpgrade upgradeRequest = Some ''comment''
   \<and> graphqlRoute acceptToken closedBreakers brokenRequest False 1700000000000 = Failed 400
   \<and> graphqlRoute acceptToken closedBreakers numberRequest False 1700000000000 = Failed 500
   \<and> graphqlRoute acceptToken openBreakers commentRequest False 1700000000000 =
       Responded 503 (createFallbackResponse ''comment'' 1700000000000)"
proof -
  have auth: "authenticateToken acceptToken commentRequest = Inr ()"
    "authenticateToken acceptToken plainPostRequest = Inr ()"
    "authenticateToken acceptToken upgradeRequest = Inr ()"
    "authenticateToken acceptToken brokenRequest = Inr ()"
    "authenticateToken acceptToken numberRequest = Inr ()"
    by (simp_all add: authenticateToken_def acceptToken_def orElse_def commentRequest_def
        plainPostRequest_def upgradeRequest_def brokenRequest_def numberRequest_def)
  have ws: "\<not> isWebSocket (upgrade commentRequest)" "\<not> isWebSocket (upgrade plainPostRequest)"
    "\<not> isWebSocket (upgrade brokenRequest)" "\<not> isWebSocket (upgrade numberRequest)"
    by (simp_all add: isWebSocket_def commentRequest_def plainPostRequest_def brokenRequest_def
        numberRequest_def)
  have wsu: "isWebSocket (upgrade upgradeRequest)"
    by code_simp
  have bodies: "body commentRequest = Body (Text commentQuery) Missing"
    "body plainPostRequest =
       Body (Text ''mutation { deletePost(id: 1) { success message } }'') Missing"
    "body brokenRequest = Refused 400"
    "body numberRequest = Body Other Missing"
    by (simp_all add: commentRequest_def plainPostRequest_def brokenRequest_def numberRequest_def)
  have c: "mentions commentOperations commentQuery"
    by (simp add: mentions_def commentOperations_def commentQuery_def)
  have p: "\<not> list_ex (\<lambda>p. fieldIncludes
               (Text ''mutation { deletePost(id: 1) { success message } }'') p = Inr True)
             commentKeywords"
    by (simp add: commentKeywords_def)
  have l: "lowerIncludes Missing ''comment'' = Inr False"
    by (simp add: toLowerCase_def)
  have k: "list_ex (\<lambda>p. fieldIncludes (Text commentQuery) p = Inr True) commentKeywords"
    by (simp add: commentKeywords_def commentQuery_def)
  have u: "startsWith (url upgradeRequest) ''/graphql''"
    by (simp add: upgradeRequest_def)
  have closed: "\<not> opened (closedBreakers ''comment'')" "\<not> opened (closedBreakers ''post'')"
    by (simp_all add: closedBreakers_def)
  have opn: "opened (openBreakers ''comment'')"
    by (simp add: openBreakers_def)
  have 1: "graphqlRoute acceptToken closedBreakers commentRequest False 1700000000000 =
     Proxied ''comment'' True"
    using graphql_routing[of acceptToken commentRequest closedBreakers False 1700000000000 "()"
        "Text commentQuery" Missing] auth(1) ws(1) bodies(1) c k closed
    by (simp add: Let_def)
  have 2: "graphqlRoute acceptToken closedBreakers plainPostRequest False 1700000000000 =
       Proxied ''post'' True"
    using graphql_routing[of acceptToken plainPostRequest closedBreakers False 1700000000000 "()"
        "Text ''mutation { deletePost(id: 1) { success message } }''" Missing]
      auth(2) ws(2) bodies(2) p l closed
    by (simp add: Let_def)
  have 3: "graphqlRoute acceptToken closedBreakers upgradeRequest False 1700000000000 =
       ProxiedWs ''comment'' \<and> onUpgrade upgradeRequest = Some ''comment''"
    using graphql_routing[of acceptToken upgradeRequest closedBreakers False 1700000000000 "()"]
      auth(3) wsu u
    by simp
  have 4: "graphqlRoute acceptToken closedBreakers brokenRequest False 1700000000000 = Failed 400"
    using graphql_routing[of acceptToken brokenRequest closedBreakers False 1700000000000 "()"]
      auth(4) ws(3) bodies(3)
    by simp
  have 5: "graphqlRoute acceptToken closedBreakers numberRequest False 1700000000000 = Failed 500"
    using graphql_routing[of acceptToken numberRequest closedBreakers False 1700000000000 "()"
        Other Missing] auth(5) ws(4) bodies(4)
    by (simp add: Let_def)
  have 6: "graphqlRoute acceptToken openBreakers commentRequest False 1700000000000 =
       Responded 503 (createFallbackResponse ''comment'' 1700000000000)"
    using graphql_routing[of acceptToken commentRequest openBreakers False 1700000000000 "()"
        "Text commentQuery" Missing] auth(1) ws(1) bodies(1) c k opn
    by (simp add: Let_def)
  from 1 2 3 4 5 6 show ?thesis by simp
qed

text \<open>
  Claim C4 as stated fails. A query of the post service sent under the operation name
  \<open>PostsWithCommentCount\<close> contains an operation of the post service and none of the
  comment service, and goes to the comment service; and a query of the comment service
  is answered 503, not forwarded, while the breaker of the comment service is open.
\<close>

theorem post_operation_routed_to_comment:
  "mentions postOperations postQuery
   \<and> \<not> mentions commentOperations postQuery
   \<and> graphqlRoute acceptToken closedBreakers postRequest False 1700000000000 =
       Proxied ''comment'' True
   \<and> graphqlRoute acceptToken openBreakers commentRequest False 1700000000000 =
       Responded 503 (createFallbackResponse ''comment'' 1700000000000)"
proof -
  have a: "mentions postOperations postQuery \<and> \<not> mentions commentOperations postQuery"
    by (simp add: mentions_def commentOperations_def postOperations_def postQuery_def)
  have b: "graphqlRoute acceptToken closedBreakers postRequest False 1700000000000 =
       Proxied ''comment'' True"
    by code_simp
  have c: "graphqlRoute acceptToken openBreakers commentRequest False 1700000000000 =
       Responded 503 (createFallbackResponse ''comment'' 1700000000000)"
    by code_simp
  from a b c show ?thesis by simp
qed

text \<open>
  Claim C5. When an operation on the store throws during the evaluation, whichever it
  is, the middleware calls \<open>next()\<close>: the request is passed on with no status, no body and
  no header of the limiter. The operations that throw are \<open>zrange\<close> and \<open>zrem\<close>, on a
  request that finds its window full. Whatever call fails, the pipeline included, the
  request is passed on and not rejected.
\<close>

theorem store_failure_fails_open:
  "((\<exists>e. snd (rateLimitTry inh up st ip path now d1 d2) = Inl e) \<longrightarrow>
      snd (createRateLimiter inh up st ip path now d1 d2) = Passed [])
   \<and> (\<forall>r. getRateLimitRule inh path = Inr (JRule r) \<longrightarrow> up Pipeline \<longrightarrow>
          maxRequests r \<le> zcard (zremrangebyscore st (rateKey ip path) 0 (now - windowMs r))
                             (rateKey ip path) \<longrightarrow>
          \<not> up Zrange \<or> \<not> up Zrem \<longrightarrow>
          snd (rateLimitTry inh up st ip path now d1 d2) = Inl StoreError
          \<and> snd (createRateLimiter inh up st ip path now d1 d2) = Passed [])
   \<and> (\<not> up Pipeline \<or> \<not> up Zrange \<or> \<not> up Zrem \<longrightarrow>
        (\<exists>hs. snd (createRateLimiter inh up st ip path now d1 d2) = Passed hs))"
  by (auto simp: createRateLimiter_def rateLimitTry_def Let_def
      split: sum.splits jsval.splits if_splits prod.splits)

text \<open>
  The sixth request of the login scenario, the store answering the pipeline and failing
  at \<open>zrange\<close>: the call throws and the request is passed on.
\<close>

theorem store_failure_fails_open_witness:
  "snd (rateLimitTry noInherited zrangeDown busyStore ''203.0.113.7'' ''/api/auth/login''
          1000005 ''0.25'' ''0.75'') = Inl StoreError
   \<and> snd (createRateLimiter noInherited zrangeDown busyStore ''203.0.113.7'' ''/api/auth/login''
            1000005 ''0.25'' ''0.75'') = Passed []"
proof -
  have t: "snd (rateLimitTry noInherited zrangeDown busyStore ''203.0.113.7'' ''/api/auth/login''
             1000005 ''0.25'' ''0.75'') = Inl StoreError"
    by (simp add: rateLimitTry_def getRateLimitRule_login zrangeDown_def busyStore_def
        emptyStore_def zremrangebyscore_def putMembers_def zcard_def Let_def)
  from store_failure_fails_open[of noInherited zrangeDown busyStore "''203.0.113.7''"
      "''/api/auth/login''" 1000005 "''0.25''" "''0.75''"] t
  show ?thesis by simp
qed

text \<open>
  Claim C6, as amended. When the evaluation of the limiter ends without an exception,
  the response carries \<open>X-RateLimit-Limit\<close>, \<open>X-RateLimit-Remaining\<close> and
  \<open>X-RateLimit-Reset\<close>, whether the request is passed on or rejected (the remaining
  quota is a number that is not negative when the store answered the pipeline, and
  \<open>NaN\<close> when it did not), and a rejected one carries \<open>Retry-After\<close> as well and has
  status 429. When the evaluation throws, the request is passed on and the limiter sets
  no header.
\<close>

theorem limiter_headers_when_evaluated:
  "(\<forall>out. snd (rateLimitTry inh up st ip path now d1 d2) = Inr out \<longrightarrow>
      snd (createRateLimiter inh up st ip path now d1 d2) = out
      \<and> (\<exists>l v t. map_of (headersOf out) ''X-RateLimit-Limit'' = Some (JNum l)
            \<and> map_of (headersOf out) ''X-RateLimit-Remaining'' = Some v
            \<and> (if up Pipeline then \<exists>n. v = JNum n \<and> 0 \<le> n else v = JNaN)
            \<and> map_of (headersOf out) ''X-RateLimit-Reset'' = Some (JIso t))
      \<and> (\<forall>status hs bd. out = Sent status hs bd \<longrightarrow>
            status = 429 \<and> (\<exists>n. map_of hs ''Retry-After'' = Some (JNum n))))
   \<and> (\<forall>e. snd (rateLimitTry inh up st ip path now d1 d2) = Inl e \<longrightarrow>
        snd (createRateLimiter inh up st ip path now d1 d2) = Passed [])"
  by (auto simp: createRateLimiter_def rateLimitTry_def Let_def
      split: sum.splits jsval.splits if_splits prod.splits)

text \<open>
  A first request to the login path with the store answering, and the same request with
  the store down: the three headers both times.
\<close>

theorem limiter_headers_when_evaluated_witness:
  "snd (createRateLimiter noInherited allUp emptyStore ''203.0.113.7'' ''/api/auth/login''
          1000000 ''0.25'' ''0.75'') =
     Passed [(''X-RateLimit-Limit'', JNum 5), (''X-RateLimit-Remaining'', JNum 4),
             (''X-RateLimit-Reset'', JIso 1900000)]
   \<and> snd (createRateLimiter noInherited storeDown emptyStore ''203.0.113.7'' ''/api/auth/login''
            1000000 ''0.25'' ''0.75'') =
       Passed [(''X-RateLimit-Limit'', JNum 5), (''X-RateLimit-Remaining'', JNaN),
               (''X-RateLimit-Reset'', JIso 1900000)]"
proof -
  have t: "snd (rateLimitTry noInherited allUp emptyStore ''203.0.113.7'' ''/api/auth/login''
             1000000 ''0.25'' ''0.75'') =
     Inr (Passed [(''X-RateLimit-Limit'', JNum 5), (''X-RateLimit-Remaining'', JNum 4),
                  (''X-RateLimit-Reset'', JIso 1900000)])"
    by (simp add: rateLimitTry_def getRateLimitRule_login allUp_def emptyStore_def
        zremrangebyscore_def zcard_def zadd_def expire_def ceilDiv1000_def Let_def)
  have d: "snd (rateLimitTry noInherited storeDown emptyStore ''203.0.113.7'' ''/api/auth/login''
             1000000 ''0.25'' ''0.75'') =
     Inr (Passed [(''X-RateLimit-Limit'', JNum 5), (''X-RateLimit-Remaining'', JNaN),
                  (''X-RateLimit-Reset'', JIso 1900000)])"
    by (simp add: rateLimitTry_def getRateLimitRule_login storeDown_def)
  from limiter_headers_when_evaluated[of noInherited allUp emptyStore "''203.0.113.7''"
      "''/api/auth/login''" 1000000 "''0.25''" "''0.75''"]
    limiter_headers_when_evaluated[of noInherited storeDown emptyStore "''203.0.113.7''"
      "''/api/auth/login''" 1000000 "''0.25''" "''0.75''"] t d
  show ?thesis by simp
qed

text \<open>
  Claim C6 as stated fails: the sixth request of the login scenario, when the store
  answers the pipeline and fails at \<open>zrange\<close>, is passed on by the \<open>catch\<close> block, and
  its response has no \<open>X-RateLimit-Limit\<close>.
\<close>

theorem fail_open_without_headers:
  "snd (createRateLimiter noInherited zrangeDown busyStore ''203.0.113.7'' ''/api/auth/login''
          1000005 ''0.25'' ''0.75'') = Passed []
   \<and> map_of (headersOf (snd (createRateLimiter noInherited zrangeDown busyStore ''203.0.113.7''
          ''/api/auth/login'' 1000005 ''0.25'' ''0.75''))) ''X-RateLimit-Limit'' = None"
  by (simp add: createRateLimiter_def rateLimitTry_def getRateLimitRule_login zrangeDown_def
      busyStore_def emptyStore_def zremrangebyscore_def putMembers_def zcard_def Let_def)

text \<open>
  Claim C7, as amended. \<open>getRateLimitStatus\<close> writes to the store in one way only: it
  removes from the set of its key the members that have left the window (a score
  between 0 and \<open>now - windowMs\<close>). It touches no other key, adds no member, removes no
  member that is still in the window, and leaves the members that stay in their order
  and the time to live of the key as they were; the key is deleted only when every
  member has left the window; when the call to the store goes through, every member
  that has left the window is removed. When no member of the key has left the window the store
  (in which no set is empty, as in Redis) is the same after the call as before.
\<close>

theorem status_only_prunes_expired:
  "(\<forall>k. k \<noteq> rateKey ip path \<longrightarrow> fst (getRateLimitStatus inh up st ip path now) k = st k)
   \<and> (\<forall>m s. (m, s) \<in> set (window (fst (getRateLimitStatus inh up st ip path now)) (rateKey ip path))
         \<longrightarrow> (m, s) \<in> set (window st (rateKey ip path)))
   \<and> (\<forall>m s. (m, s) \<in> set (window st (rateKey ip path)) \<longrightarrow>
         (m, s) \<notin> set (window (fst (getRateLimitStatus inh up st ip path now)) (rateKey ip path)) \<longrightarrow>
         (\<exists>r. getRateLimitRule inh path = Inr (JRule r) \<and> 0 \<le> s \<and> s \<le> now - windowMs r))
   \<and> (\<forall>e'. fst (getRateLimitStatus inh up st ip path now) (rateKey ip path) = Some e' \<longrightarrow>
         (\<exists>e. st (rateKey ip path) = Some e \<and> ttl e' = ttl e
              \<and> (zmembers e' = zmembers e
                   \<or> (\<exists>r. getRateLimitRule inh path = Inr (JRule r)
                          \<and> zmembers e' =
                              filter (\<lambda>(m, s). \<not> (0 \<le> s \<and> s \<le> now - windowMs r)) (zmembers e)))))
   \<and> (\<forall>e. st (rateKey ip path) = Some e \<longrightarrow>
         fst (getRateLimitStatus inh up st ip path now) (rateKey ip path) = None \<longrightarrow>
         (\<exists>r. getRateLimitRule inh path = Inr (JRule r)
              \<and> (\<forall>(m, s)\<in>set (zmembers e). 0 \<le> s \<and> s \<le> now - windowMs r)))
   \<and> (\<forall>r. getRateLimitRule inh path = Inr (JRule r) \<longrightarrow> up Zremrangebyscore \<longrightarrow>
         window (fst (getRateLimitStatus inh up st ip path now)) (rateKey ip path) =
           filter (\<lambda>(m, s). \<not> (0 \<le> s \<and> s \<le> now - windowMs r)) (window st (rateKey ip path)))
   \<and> ((\<forall>r. getRateLimitRule inh path = Inr (JRule r) \<longrightarrow>
          (\<forall>(m, s)\<in>set (window st (rateKey ip path)). \<not> (0 \<le> s \<and> s \<le> now - windowMs r))) \<longrightarrow>
        (\<forall>e. st (rateKey ip path) = Some e \<longrightarrow> zmembers e \<noteq> []) \<longrightarrow>
        fst (getRateLimitStatus inh up st ip path now) = st)"
proof (intro conjI allI impI)
  fix k assume "k \<noteq> rateKey ip path"
  then show "fst (getRateLimitStatus inh up st ip path now) k = st k"
    by (simp add: getRateLimitStatus_fst zremrangebyscore_other split: sum.split jsval.split)
next
  fix m s
  assume "(m, s) \<in> set (window (fst (getRateLimitStatus inh up st ip path now)) (rateKey ip path))"
  then show "(m, s) \<in> set (window st (rateKey ip path))"
    by (auto simp: getRateLimitStatus_fst window_zremrangebyscore
        split: sum.splits jsval.splits if_splits)
next
  fix m s
  assume "(m, s) \<in> set (window st (rateKey ip path))"
     and "(m, s) \<notin> set (window (fst (getRateLimitStatus inh up st ip path now)) (rateKey ip path))"
  then show "\<exists>r. getRateLimitRule inh path = Inr (JRule r) \<and> 0 \<le> s \<and> s \<le> now - windowMs r"
    by (auto simp: getRateLimitStatus_fst window_zremrangebyscore
        split: sum.splits jsval.splits if_splits)
next
  fix e'
  assume "fst (getRateLimitStatus inh up st ip path now) (rateKey ip path) = Some e'"
  then show "\<exists>e. st (rateKey ip path) = Some e \<and> ttl e' = ttl e
              \<and> (zmembers e' = zmembers e
                   \<or> (\<exists>r. getRateLimitRule inh path = Inr (JRule r)
                          \<and> zmembers e' =
                              filter (\<lambda>(m, s). \<not> (0 \<le> s \<and> s \<le> now - windowMs r)) (zmembers e)))"
    by (auto simp: getRateLimitStatus_fst zremrangebyscore_def putMembers_def
        split: sum.splits jsval.splits if_splits option.splits)
next
  fix e
  assume "st (rateKey ip path) = Some e"
     and "fst (getRateLimitStatus inh up st ip path now) (rateKey ip path) = None"
  then show "\<exists>r. getRateLimitRule inh path = Inr (JRule r)
              \<and> (\<forall>(m, s)\<in>set (zmembers e). 0 \<le> s \<and> s \<le> now - windowMs r)"
    by (auto simp: getRateLimitStatus_fst zremrangebyscore_def putMembers_def filter_empty_conv
        split: sum.splits jsval.splits if_splits option.splits)
next
  fix r
  assume "getRateLimitRule inh path = Inr (JRule r)" and "up Zremrangebyscore"
  then show "window (fst (getRateLimitStatus inh up st ip path now)) (rateKey ip path) =
           filter (\<lambda>(m, s). \<not> (0 \<le> s \<and> s \<le> now - windowMs r)) (window st (rateKey ip path))"
    by (simp add: getRateLimitStatus_fst window_zremrangebyscore)
next
  assume a: "\<forall>r. getRateLimitRule inh path = Inr (JRule r) \<longrightarrow>
          (\<forall>(m, s)\<in>set (window st (rateKey ip path)). \<not> (0 \<le> s \<and> s \<le> now - windowMs r))"
     and b: "\<forall>e. st (rateKey ip path) = Some e \<longrightarrow> zmembers e \<noteq> []"
  show "fst (getRateLimitStatus inh up st ip path now) = st"
    using a b by (auto simp: getRateLimitStatus_fst zremrangebyscore_none_in_range
        split: sum.splits jsval.splits)
qed

text \<open>
  The status of a key that holds two requests, 100 seconds after the second: no member
  has left the window, the store is as it was, and the report counts two requests.
\<close>

theorem status_only_prunes_expired_witness:
  "getRateLimitStatus noInherited allUp agedStore ''203.0.113.7'' ''/api/auth/login'' 1600000 =
     (agedStore,
      Some [(''ip'', JStr ''203.0.113.7''),
            (''path'', JStr ''/api/auth/login''),
            (''limit'', JNum 5),
            (''current'', JNum 2),
            (''remaining'', JNum 3),
            (''resetAt'', JIso 2500000)])"
proof -
  have a: "\<forall>r. getRateLimitRule noInherited ''/api/auth/login'' = Inr (JRule r) \<longrightarrow>
          (\<forall>(m, s)\<in>set (window agedStore (rateKey ''203.0.113.7'' ''/api/auth/login'')).
              \<not> (0 \<le> s \<and> s \<le> 1600000 - windowMs r))"
    by (simp add: getRateLimitRule_login window_def agedStore_def)
  have b: "\<forall>e. agedStore (rateKey ''203.0.113.7'' ''/api/auth/login'') = Some e \<longrightarrow> zmembers e \<noteq> []"
    by (simp add: agedStore_def)
  have f: "fst (getRateLimitStatus noInherited allUp agedStore ''203.0.113.7'' ''/api/auth/login'' 1600000) =
           agedStore"
    using status_only_prunes_expired[of "''203.0.113.7''" "''/api/auth/login''" noInherited allUp
        agedStore 1600000] a b by blast
  have s: "snd (getRateLimitStatus noInherited allUp agedStore ''203.0.113.7'' ''/api/auth/login'' 1600000) =
      Some [(''ip'', JStr ''203.0.113.7''),
            (''path'', JStr ''/api/auth/login''),
            (''limit'', JNum 5),
            (''current'', JNum 2),
            (''remaining'', JNum 3),
            (''resetAt'', JIso 2500000)]"
    by (simp add: getRateLimitStatus_def getRateLimitRule_login allUp_def Let_def zcard_window
        window_zremrangebyscore) (simp add: window_def agedStore_def)
  from f s show ?thesis by (simp add: prod_eq_iff)
qed

text \<open>
  Claim C7 as stated fails: the status of the same key 500 seconds after the second
  request, while the key is alive (its time to live runs until 2400000), removes the
  first member, which has left the window: the set holds two members before the call
  and one after it.
\<close>

theorem status_removes_expired_member:
  "fst (getRateLimitStatus noInherited allUp agedStore ''203.0.113.7'' ''/api/auth/login'' 2000000)
     (rateKey ''203.0.113.7'' ''/api/auth/login'') =
       Some \<lparr>zmembers = [(''1500000-0.12'', 1500000)], ttl = Some 900\<rparr>
   \<and> agedStore (rateKey ''203.0.113.7'' ''/api/auth/login'') =
       Some \<lparr>zmembers = [(''1000000-0.11'', 1000000), (''1500000-0.12'', 1500000)],
             ttl = Some 900\<rparr>"
  by (simp add: getRateLimitStatus_def getRateLimitRule_login agedStore_def allUp_def
      zremrangebyscore_def putMembers_def Let_def)

text \<open>
  Claim C8. The code fails the claim on the paths where the lookup returns no rule
  (claim C10): after a reset of \<open>/api/default/windowMs\<close> the next request to that path
  is passed on by the \<open>catch\<close> block, with no header: no count is compared with a limit
  and no remaining quota is reported.
\<close>

theorem reset_then_evaluate_on_non_rule_path:
  "snd (createRateLimiter inh up (fst (resetRateLimit keysOf up st ip ''/api/default/windowMs''))
          ip ''/api/default/windowMs'' now d1 d2) = Passed []"
  by (simp add: createRateLimiter_def rateLimitTry_def getRateLimitRule_default_windowMs Let_def)

text \<open>
  Claim C9. Every request that the limiter rejects carries a \<open>Retry-After\<close> greater than
  zero: the oldest member that survived the pruning expires after \<open>now\<close>, so the ceiling
  of the seconds left is at least one. The window of the rule is positive, as it is for
  every rule of the table (\<open>table_rule_positive\<close>), and no score of the store is negative,
  as in every store the limiter has written (\<open>scoresNonneg_createRateLimiter\<close>).
\<close>

theorem retry_after_positive:
  assumes sent: "snd (createRateLimiter inh up st ip path now d1 d2) = Sent status hs bd"
      and pos: "\<forall>r. getRateLimitRule inh path = Inr (JRule r) \<longrightarrow> 0 < windowMs r"
      and nonneg: "scoresNonneg st"
  shows "status = 429 \<and> (\<exists>n. map_of hs ''Retry-After'' = Some (JNum n) \<and> 0 < n)"
proof -
  have "\<exists>r. getRateLimitRule inh path = Inr (JRule r)"
  proof (rule ccontr)
    assume "\<not> ?thesis"
    then have "\<exists>e. snd (rateLimitTry inh up st ip path now d1 d2) = Inl e"
      by (intro rateLimitTry_no_rule) simp
    with sent show False by (auto simp: createRateLimiter_snd)
  qed
  then obtain r where rule: "getRateLimitRule inh path = Inr (JRule r)" ..
  with pos have w: "0 < windowMs r" by simp
  let ?w3 = "inserted (memberName now d1) now (live r now (window st (rateKey ip path)))"
  have "\<forall>(m, s)\<in>set (window st (rateKey ip path)). 0 \<le> s"
    using nonneg by (simp add: scoresNonneg_def)
  then have "0 < retryAfterOf r now ?w3"
    by (intro retryAfterOf_pos[OF w] live_inserted_recent[OF w])
  moreover have "status = 429 \<and> map_of hs ''Retry-After'' = Some (JNum (retryAfterOf r now ?w3))"
    using sent unfolding createRateLimiter_snd rateLimitTry_rule[OF rule w]
    by (auto simp: Let_def split: if_splits)
  ultimately show ?thesis by blast
qed

text \<open>
  The sixth request of an identity to the login path, five milliseconds after its first:
  the answer is 429 and asks to retry after 900 seconds.
\<close>

theorem retry_after_positive_witness:
  "scoresNonneg busyStore
   \<and> (\<exists>hs bd. snd (createRateLimiter noInherited allUp busyStore ''203.0.113.7''
                      ''/api/auth/login'' 1000005 ''0.25'' ''0.75'') = Sent 429 hs bd
          \<and> map_of hs ''Retry-After'' = Some (JNum 900))"
proof -
  have n: "scoresNonneg busyStore"
    by (simp add: scoresNonneg_def window_def busyStore_def emptyStore_def)
  have p: "\<forall>r. getRateLimitRule noInherited ''/api/auth/login'' = Inr (JRule r) \<longrightarrow> 0 < windowMs r"
    by (simp add: getRateLimitRule_login)
  have s: "snd (createRateLimiter noInherited allUp busyStore ''203.0.113.7''
             ''/api/auth/login'' 1000005 ''0.25'' ''0.75'') =
           Sent 429
             [(''X-RateLimit-Limit'', JNum 5),
              (''X-RateLimit-Remaining'', JNum 0),
              (''X-RateLimit-Reset'', JIso 1900005),
              (''Retry-After'', JNum 900)]
             [(''success'', JBool False),
              (''error'', JStr ''RATE_LIMIT_EXCEEDED''),
              (''message'', JStr ''Qua nhieu lan dang nhap that bai. Vui long thu lai sau 15 phut.''),
              (''retryAfter'', JNum 900)]"
    by (simp add: createRateLimiter_def rateLimitTry_def getRateLimitRule_login busyStore_def
        allUp_def zremrangebyscore_def putMembers_def zcard_def zadd_def expire_def
        ceilDiv1000_def zrangeFirst_def zrem_def Let_def memberName_def showInt_def digits.simps)
  from retry_after_positive[OF s p n] n s show ?thesis by simp
qed

text \<open>
  Claim C10. The code fails the claim. The lookup of \<open>/api/default/windowMs\<close> takes the
  global default rule for the rules of a service called \<open>default\<close> and returns its field
  \<open>windowMs\<close>, the number 900000, where a rule is promised; the two other fields are
  returned in the same way.
\<close>

theorem rule_lookup_returns_number:
  "getRateLimitRule inh ''/api/default/windowMs'' = Inr (JNum 900000)
   \<and> getRateLimitRule inh ''/api/default/maxRequests'' = Inr (JNum 100)
   \<and> getRateLimitRule inh ''/api/default/message'' =
       Inr (JStr ''Qua nhieu requests. Vui long thu lai sau.'')"
  by (simp add: getRateLimitRule_def pathParts_def split_def getProp_def rateLimitRules_def)

end
